theory Spec2Isabelle
  imports Main
begin

section \<open>Python values, numpy arrays, errors\<close>

text \<open>
  The supervision arrays of \<^verbatim>\<open>secuml/core/classif/conf/classifiers/__init__.py\<close> are
  numpy arrays. An array that can hold \<^verbatim>\<open>None\<close> has dtype object, and its elements
  are Python objects: \<^verbatim>\<open>None\<close>, a boolean label, an integer (the sentinel \<^verbatim>\<open>-1\<close>
  is written into such an array) or a string (a family name). \<^verbatim>\<open>astype('int')\<close>
  gives an integer array, \<^verbatim>\<open>astype('str')\<close> a string array.
\<close>

datatype pyval = PyNone | PyBool bool | PyInt int | PyStr string

datatype ndarray = ObjArr "pyval list" | IntArr "int list" | StrArr "string list"

datatype error =
    MissingAnnotations
  | AtLeastTwoClasses
  | ValueError string
  | TypeError
  | AttributeError
  | KeyError string
  | OverflowError

text \<open>The elements of an array as Python objects, as iteration and comparison see them.\<close>

fun to_objs :: "ndarray \<Rightarrow> pyval list" where
  "to_objs (ObjArr xs) = xs"
| "to_objs (IntArr xs) = map PyInt xs"
| "to_objs (StrArr xs) = map PyStr xs"

text \<open>\<^verbatim>\<open>supervision != None\<close> and \<^verbatim>\<open>supervision == None\<close>: elementwise masks.\<close>

definition ne_None :: "ndarray \<Rightarrow> bool list" where
  "ne_None a = map (\<lambda>x. x \<noteq> PyNone) (to_objs a)"

definition eq_None :: "ndarray \<Rightarrow> bool list" where
  "eq_None a = map (\<lambda>x. x = PyNone) (to_objs a)"

text \<open>\<^verbatim>\<open>np.all\<close> of a boolean mask; true on the empty mask.\<close>

definition np_all :: "bool list \<Rightarrow> bool" where
  "np_all m = list_all (\<lambda>b. b) m"

text \<open>
  \<^verbatim>\<open>set(supervision)\<close>: Python compares and hashes \<^verbatim>\<open>True\<close> as \<^verbatim>\<open>1\<close> and
  \<^verbatim>\<open>False\<close> as \<^verbatim>\<open>0\<close>, so a boolean and the integer it equals are one element of
  the set. \<open>py_key\<close> maps a value to the representative of its equality class.
\<close>

fun py_key :: "pyval \<Rightarrow> pyval" where
  "py_key (PyBool b) = PyInt (if b then 1 else 0)"
| "py_key x = x"

definition py_set :: "ndarray \<Rightarrow> pyval list" where
  "py_set a = remdups (map py_key (to_objs a))"

text \<open>
  \<^verbatim>\<open>astype('int')\<close> converts each element with Python's \<^verbatim>\<open>int()\<close> into a 64-bit
  integer: \<^verbatim>\<open>None\<close> raises TypeError, a string that is no integer literal raises
  ValueError, an integer out of the 64-bit range raises OverflowError. Python's parser
  of integer literals is a builtin; it is the parameter \<open>int_of_str\<close>.
\<close>

definition in_int64 :: "int \<Rightarrow> bool" where
  "in_int64 i = (- (2 ^ 63) \<le> i \<and> i < 2 ^ 63)"

fun py_int :: "(string \<Rightarrow> int option) \<Rightarrow> pyval \<Rightarrow> error + int" where
  "py_int int_of_str PyNone = Inl TypeError"
| "py_int int_of_str (PyBool b) = Inr (if b then 1 else 0)"
| "py_int int_of_str (PyInt i) = (if in_int64 i then Inr i else Inl OverflowError)"
| "py_int int_of_str (PyStr s) =
     (case int_of_str s of
        None \<Rightarrow> Inl (ValueError s)
      | Some i \<Rightarrow> if in_int64 i then Inr i else Inl OverflowError)"

fun ints_of :: "(string \<Rightarrow> int option) \<Rightarrow> pyval list \<Rightarrow> error + int list" where
  "ints_of int_of_str [] = Inr []"
| "ints_of int_of_str (x # xs) =
     (case py_int int_of_str x of
        Inl e \<Rightarrow> Inl e
      | Inr i \<Rightarrow> (case ints_of int_of_str xs of Inl e \<Rightarrow> Inl e | Inr r \<Rightarrow> Inr (i # r)))"

definition astype_int :: "(string \<Rightarrow> int option) \<Rightarrow> ndarray \<Rightarrow> error + ndarray" where
  "astype_int int_of_str a =
     (case ints_of int_of_str (to_objs a) of Inl e \<Rightarrow> Inl e | Inr r \<Rightarrow> Inr (IntArr r))"

text \<open>
  \<^verbatim>\<open>astype('str')\<close> converts each element with Python's \<^verbatim>\<open>str()\<close> and stores
  it in a string array; it never raises.
\<close>

definition digit_char :: "nat \<Rightarrow> char" where
  "digit_char d = ''0123456789'' ! (d mod 10)"

function str_of_nat :: "nat \<Rightarrow> string" where
  "str_of_nat n =
     (if n < 10 then [digit_char n] else str_of_nat (n div 10) @ [digit_char (n mod 10)])"
  by pat_completeness auto
termination
  by (relation "measure (\<lambda>n. n)") auto

declare str_of_nat.simps [simp del]

definition str_of_int :: "int \<Rightarrow> string" where
  "str_of_int i = (if i < 0 then CHR ''-'' # str_of_nat (nat (- i)) else str_of_nat (nat i))"

fun py_str :: "pyval \<Rightarrow> string" where
  "py_str PyNone = ''None''"
| "py_str (PyBool b) = (if b then ''True'' else ''False'')"
| "py_str (PyInt i) = str_of_int i"
| "py_str (PyStr s) = s"

text \<open>
  The string array has a fixed-width unicode dtype, which pads with NUL characters and
  drops the trailing ones on reading: an element is the string without its trailing
  NUL characters.
\<close>

definition strip_nul :: "string \<Rightarrow> string" where
  "strip_nul s = rev (dropWhile (\<lambda>c. c = CHR 0x00) (rev s))"

definition astype_str :: "ndarray \<Rightarrow> ndarray" where
  "astype_str a = StrArr (map (\<lambda>x. strip_nul (py_str x)) (to_objs a))"

text \<open>
  \<^verbatim>\<open>a[mask] = v\<close>: the masked positions take \<open>v\<close>, converted to the array's dtype;
  the array is changed in place (see \<open>setitem\<close> on the store below).
\<close>

fun put_mask :: "ndarray \<Rightarrow> bool list \<Rightarrow> int \<Rightarrow> ndarray" where
  "put_mask (ObjArr xs) m v = ObjArr (map2 (\<lambda>x b. if b then PyInt v else x) xs m)"
| "put_mask (IntArr xs) m v = IntArr (map2 (\<lambda>x b. if b then v else x) xs m)"
| "put_mask (StrArr xs) m v = StrArr (map2 (\<lambda>x b. if b then str_of_int v else x) xs m)"

subsection \<open>The store of arrays\<close>

text \<open>
  Arrays are objects with identity: \<^verbatim>\<open>deepcopy\<close> and \<^verbatim>\<open>astype\<close> make new arrays,
  \<^verbatim>\<open>a[mask] = v\<close> changes an existing one. The store maps references to arrays;
  references below \<open>next_ref\<close> are the arrays that exist.
\<close>

type_synonym ref = nat

record store =
  cells :: "ref \<Rightarrow> ndarray"
  next_ref :: ref

definition alloc :: "store \<Rightarrow> ndarray \<Rightarrow> ref \<times> store" where
  "alloc h a = (next_ref h, h\<lparr>cells := (cells h)(next_ref h := a), next_ref := Suc (next_ref h)\<rparr>)"

definition deepcopy :: "store \<Rightarrow> ref \<Rightarrow> ref \<times> store" where
  "deepcopy h p = alloc h (cells h p)"

definition setitem :: "store \<Rightarrow> ref \<Rightarrow> bool list \<Rightarrow> int \<Rightarrow> store" where
  "setitem h p m v = h\<lparr>cells := (cells h)(p := put_mask (cells h p) m v)\<rparr>"

section \<open>Classes of the configuration hierarchy\<close>

text \<open>
  \<^verbatim>\<open>class ClassifierType(Enum)\<close>: the three paradigms.
\<close>

datatype ClassifierType = unsupervised | semisupervised | supervised

text \<open>
  A concrete leaf class supplies the abstract operations of \<^verbatim>\<open>ClassifierConf\<close>:
  \<^verbatim>\<open>_get_model_class\<close> (here the name of the model class, all that the configuration
  keeps of it apart from the class object), \<^verbatim>\<open>is_probabilist\<close> and
  \<^verbatim>\<open>get_feature_importance\<close> (\<^verbatim>\<open>None\<close>, \<^verbatim>\<open>'score'\<close> or \<^verbatim>\<open>'weight'\<close>).
  The leaf classes are in other modules; what their operations return is taken as three
  constants of the class.
\<close>

datatype feature_kind = NoImportance | Score | Weight

record leaf_ops =
  get_model_class_name :: string
  is_probabilist :: bool
  get_feature_importance :: feature_kind

text \<open>
  A Python class: its \<^verbatim>\<open>__name__\<close>, its direct bases, and the abstract operations
  it supplies, if it is a concrete leaf.
\<close>

datatype pyclass = PyClass (cname: string) (cbases: "pyclass list") (cleaf: "leaf_ops option")

text \<open>\<^verbatim>\<open>Conf\<close> is imported from \<^verbatim>\<open>secuml.core.conf\<close>; the four others are this file's.\<close>

definition Conf_cls :: pyclass where
  "Conf_cls = PyClass ''Conf'' [] None"

definition ClassifierConf_cls :: pyclass where
  "ClassifierConf_cls = PyClass ''ClassifierConf'' [Conf_cls] None"

definition SupervisedClassifierConf_cls :: pyclass where
  "SupervisedClassifierConf_cls = PyClass ''SupervisedClassifierConf'' [ClassifierConf_cls] None"

definition UnsupervisedClassifierConf_cls :: pyclass where
  "UnsupervisedClassifierConf_cls =
     PyClass ''UnsupervisedClassifierConf'' [ClassifierConf_cls] None"

definition SemiSupervisedClassifierConf_cls :: pyclass where
  "SemiSupervisedClassifierConf_cls =
     PyClass ''SemiSupervisedClassifierConf'' [ClassifierConf_cls] None"

text \<open>\<^verbatim>\<open>issubclass(c, d)\<close>: \<open>d\<close> is \<open>c\<close> or an ancestor of \<open>c\<close>, through any base.\<close>

fun issubclass :: "pyclass \<Rightarrow> pyclass \<Rightarrow> bool" where
  "issubclass (PyClass n bs l) d =
     (PyClass n bs l = d \<or> (\<exists>b \<in> set bs. issubclass b d))"

text \<open>
  \<^verbatim>\<open>get_classifier_type(class_)\<close>. The result \<^verbatim>\<open>None\<close> is \<open>Inr None\<close>; the
  ValueError carries its message, which starts with the name of the class.
\<close>

definition get_classifier_type :: "pyclass \<Rightarrow> error + ClassifierType option" where
  "get_classifier_type cls =
     (if issubclass cls UnsupervisedClassifierConf_cls then Inr (Some unsupervised)
      else if issubclass cls SemiSupervisedClassifierConf_cls then Inr (Some semisupervised)
      else if issubclass cls SupervisedClassifierConf_cls then Inr (Some supervised)
      else if issubclass cls ClassifierConf_cls then Inr None
      else Inl (ValueError (cname cls @ '' is not a classifier configuration.'')))"

subsection \<open>Attribute lookup\<close>

text \<open>
  The constructors and the supervision methods that the classes of this file define,
  each under the name its \<^verbatim>\<open>def\<close> gives it. \<open>own_attr c a\<close> is the entry \<open>a\<close> of the
  class's own dictionary. Classes outside this file are taken to define none of these
  names: a leaf class that has a constructor or a supervision method of its own is not
  described here.
\<close>

datatype impl =
    Fn_ClassifierConf_init
  | Fn_SupervisedClassifierConf_init
  | Fn_UnsupervisedClassifierConf_init
  | Fn_SemiSupervisedClassifierConf_init
  | Fn_ClassifierConf_get_supervision
  | Fn_SupervisedClassifierConf_get_supervision
  | Fn_UnsupervisedClassifierConf_supervision
  | Fn_SemiSupervisedClassifierConf_get_supervision

definition own_attr :: "pyclass \<Rightarrow> string \<Rightarrow> impl option" where
  "own_attr c a =
     (if c = ClassifierConf_cls then
        (if a = ''__init__'' then Some Fn_ClassifierConf_init
         else if a = ''get_supervision'' then Some Fn_ClassifierConf_get_supervision
         else None)
      else if c = SupervisedClassifierConf_cls then
        (if a = ''__init__'' then Some Fn_SupervisedClassifierConf_init
         else if a = ''get_supervision'' then Some Fn_SupervisedClassifierConf_get_supervision
         else None)
      else if c = UnsupervisedClassifierConf_cls then
        (if a = ''__init__'' then Some Fn_UnsupervisedClassifierConf_init
         else if a = ''supervision'' then Some Fn_UnsupervisedClassifierConf_supervision
         else None)
      else if c = SemiSupervisedClassifierConf_cls then
        (if a = ''__init__'' then Some Fn_SemiSupervisedClassifierConf_init
         else if a = ''get_supervision'' then Some Fn_SemiSupervisedClassifierConf_get_supervision
         else None)
      else None)"

fun first_some :: "'a option list \<Rightarrow> 'a option" where
  "first_some [] = None"
| "first_some (None # xs) = first_some xs"
| "first_some (Some x # xs) = Some x"

text \<open>
  The method resolution order of a class is the C3 linearisation Python computes when
  the class is created: the class, then the merge of the orders of its bases and of the
  list of the bases. The merge takes, as long as a sequence is left, the first head that
  is in the tail of no sequence, and removes it from the sequences; when no head
  qualifies the hierarchy is inconsistent, Python refuses to create the class, and the
  result is \<open>None\<close>.
\<close>

definition live_seqs :: "'a list list \<Rightarrow> 'a list list" where
  "live_seqs seqs = filter (\<lambda>s. s \<noteq> []) seqs"

definition good_head :: "'a list list \<Rightarrow> 'a \<Rightarrow> bool" where
  "good_head seqs c = (\<forall>s \<in> set seqs. c \<notin> set (tl s))"

definition drop_head :: "'a \<Rightarrow> 'a list list \<Rightarrow> 'a list list" where
  "drop_head c seqs = map (\<lambda>s. if hd s = c then tl s else s) seqs"

function c3_merge :: "'a list list \<Rightarrow> 'a list option" where
  "c3_merge seqs =
     (if live_seqs seqs = [] then Some []
      else case find (good_head (live_seqs seqs)) (map hd (live_seqs seqs)) of
             None \<Rightarrow> None
           | Some c \<Rightarrow>
               (case c3_merge (drop_head c (live_seqs seqs)) of
                  None \<Rightarrow> None
                | Some r \<Rightarrow> Some (c # r)))"
  by pat_completeness auto
termination
proof (relation "measure (\<lambda>seqs. length (concat seqs))")
  show "wf (measure (\<lambda>seqs. length (concat seqs)))" by simp
next
  fix seqs :: "'a list list" and c
  assume found: "find (good_head (live_seqs seqs)) (map hd (live_seqs seqs)) = Some c"
  have live: "length (concat (live_seqs ss)) = length (concat ss)" for ss :: "'a list list"
    by (induction ss) (auto simp: live_seqs_def)
  have le: "length (concat (drop_head c ss)) \<le> length (concat ss)" for ss :: "'a list list"
    by (induction ss) (auto simp: drop_head_def)
  have less: "length (concat (drop_head c ss)) < length (concat ss)"
    if "c \<in> set (map hd ss)" and "\<forall>s \<in> set ss. s \<noteq> []" for ss :: "'a list list"
    using that
  proof (induction ss)
    case Nil
    then show ?case by simp
  next
    case (Cons s ss)
    show ?case
    proof (cases "hd s = c")
      case True
      with Cons.prems have "length (tl s) < length s" by (cases s) auto
      with True le [of ss] show ?thesis by (simp add: drop_head_def)
    next
      case False
      with Cons have "length (concat (drop_head c ss)) < length (concat ss)" by auto
      with False show ?thesis by (simp add: drop_head_def)
    qed
  qed
  from found have "c \<in> set (map hd (live_seqs seqs))"
    by (auto simp: find_Some_iff)
  moreover have "\<forall>s \<in> set (live_seqs seqs). s \<noteq> []"
    by (simp add: live_seqs_def)
  ultimately have "length (concat (drop_head c (live_seqs seqs)))
                     < length (concat (live_seqs seqs))"
    by (rule less)
  then show "(drop_head c (live_seqs seqs), seqs) \<in> measure (\<lambda>seqs. length (concat seqs))"
    by (simp add: live)
qed

declare c3_merge.simps [simp del]

fun mro :: "pyclass \<Rightarrow> pyclass list option" where
  "mro (PyClass n bs l) =
     (case those (map mro bs) of
        None \<Rightarrow> None
      | Some ls \<Rightarrow>
          (case c3_merge (ls @ [bs]) of
             None \<Rightarrow> None
           | Some r \<Rightarrow> Some (PyClass n bs l # r)))"

text \<open>
  Lookup of an attribute on a class: the entry of the first class of the method
  resolution order whose own dictionary has the name.
\<close>

definition lookup_attr :: "pyclass \<Rightarrow> string \<Rightarrow> impl option" where
  "lookup_attr c a =
     (case mro c of
        None \<Rightarrow> None
      | Some ms \<Rightarrow> first_some (map (\<lambda>k. own_attr k a) ms))"

text \<open>
  The abstract operations a class has: those of the first class of its method
  resolution order that supplies them.
\<close>

definition lookup_ops :: "pyclass \<Rightarrow> leaf_ops option" where
  "lookup_ops c = (case mro c of None \<Rightarrow> None | Some ms \<Rightarrow> first_some (map cleaf ms))"

text \<open>\<open>derives_singly c p\<close>: \<open>c\<close> is \<open>p\<close> or descends from it by single inheritance.\<close>

fun derives_singly :: "pyclass \<Rightarrow> pyclass \<Rightarrow> bool" where
  "derives_singly (PyClass n bs l) p =
     (PyClass n bs l = p \<or> (case bs of [b] \<Rightarrow> derives_singly b p | _ \<Rightarrow> False))"

section \<open>Configurations and their constructors\<close>

text \<open>
  The attributes \<^verbatim>\<open>ClassifierConf.__init__\<close> sets. \<open>conf_class\<close> is the class of the
  object; the model class is kept by its name. The hyperparameter configuration is an
  object of \<^verbatim>\<open>secuml.core.classif.conf.hyperparam\<close>, of any type \<open>'h\<close> here.
\<close>

record 'h conf =
  conf_class :: pyclass
  multiclass :: bool
  hyperparam_conf :: 'h
  accept_sparse :: bool
  probabilist :: bool
  feature_importance :: feature_kind
  model_class_name :: string

text \<open>
  \<^verbatim>\<open>ClassifierConf.__init__(self, multiclass, hyperparam_conf, logger)\<close>, with
  \<^verbatim>\<open>_set_characteristics\<close> and \<^verbatim>\<open>_set_model_class\<close>. On a class that supplies no
  \<^verbatim>\<open>_get_model_class\<close> the abstract one returns \<^verbatim>\<open>None\<close>, and reading its
  \<^verbatim>\<open>__name__\<close> raises AttributeError.
\<close>

definition ClassifierConf_init :: "pyclass \<Rightarrow> bool \<Rightarrow> 'h \<Rightarrow> 'l \<Rightarrow> error + 'h conf" where
  "ClassifierConf_init cls mc hyper logger =
     (case lookup_ops cls of
        None \<Rightarrow> Inl AttributeError
      | Some ops \<Rightarrow>
          Inr \<lparr>conf_class = cls, multiclass = mc, hyperparam_conf = hyper,
               accept_sparse = False, probabilist = is_probabilist ops,
               feature_importance = get_feature_importance ops,
               model_class_name = get_model_class_name ops\<rparr>)"

definition SupervisedClassifierConf_init :: "pyclass \<Rightarrow> bool \<Rightarrow> 'h \<Rightarrow> 'l \<Rightarrow> error + 'h conf" where
  "SupervisedClassifierConf_init cls mc hyper logger = ClassifierConf_init cls mc hyper logger"

definition UnsupervisedClassifierConf_init :: "pyclass \<Rightarrow> 'h \<Rightarrow> 'l \<Rightarrow> error + 'h conf" where
  "UnsupervisedClassifierConf_init cls hyper logger = ClassifierConf_init cls False hyper logger"

definition SemiSupervisedClassifierConf_init :: "pyclass \<Rightarrow> bool \<Rightarrow> 'h \<Rightarrow> 'l \<Rightarrow> error + 'h conf" where
  "SemiSupervisedClassifierConf_init cls mc hyper logger = ClassifierConf_init cls mc hyper logger"

text \<open>
  Calling a class with positional arguments: \<^verbatim>\<open>class_(hyper_conf, logger)\<close> or
  \<^verbatim>\<open>class_(multiclass, hyper_conf, logger)\<close>. The constructor found by attribute lookup
  binds them; one argument too many or too few raises TypeError. A class that has none
  of this file's constructors has that of \<^verbatim>\<open>Conf\<close> (one argument, the logger) or of
  \<^verbatim>\<open>object\<close> (none), and both calls raise TypeError.
\<close>

datatype ('h, 'l) call_args = Args2 'h 'l | Args3 bool 'h 'l

definition instantiate :: "pyclass \<Rightarrow> ('h, 'l) call_args \<Rightarrow> error + 'h conf" where
  "instantiate cls args =
     (case lookup_attr cls ''__init__'' of
        Some Fn_UnsupervisedClassifierConf_init \<Rightarrow>
          (case args of
             Args2 hyper logger \<Rightarrow> UnsupervisedClassifierConf_init cls hyper logger
           | Args3 mc hyper logger \<Rightarrow> Inl TypeError)
      | Some Fn_SupervisedClassifierConf_init \<Rightarrow>
          (case args of
             Args2 hyper logger \<Rightarrow> Inl TypeError
           | Args3 mc hyper logger \<Rightarrow> SupervisedClassifierConf_init cls mc hyper logger)
      | Some Fn_SemiSupervisedClassifierConf_init \<Rightarrow>
          (case args of
             Args2 hyper logger \<Rightarrow> Inl TypeError
           | Args3 mc hyper logger \<Rightarrow> SemiSupervisedClassifierConf_init cls mc hyper logger)
      | Some Fn_ClassifierConf_init \<Rightarrow>
          (case args of
             Args2 hyper logger \<Rightarrow> Inl TypeError
           | Args3 mc hyper logger \<Rightarrow> ClassifierConf_init cls mc hyper logger)
      | _ \<Rightarrow> Inl TypeError)"

section \<open>The factory\<close>

text \<open>
  \<^verbatim>\<open>ClassifierConfFactory.get_default\<close>. \<^verbatim>\<open>get_factory().get_class\<close> belongs to
  \<^verbatim>\<open>ConfFactory\<close> and \<^verbatim>\<open>HyperparamConf.get_default\<close> to the hyperparameter module:
  both are parameters, and either may raise.
\<close>

definition get_default ::
  "(string \<Rightarrow> error + pyclass) \<Rightarrow> (int \<Rightarrow> int \<Rightarrow> bool \<Rightarrow> pyclass \<Rightarrow> 'l \<Rightarrow> error + 'h) \<Rightarrow>
   string \<Rightarrow> int \<Rightarrow> int \<Rightarrow> bool \<Rightarrow> 'l \<Rightarrow> error + 'h conf" where
  "get_default get_class hyper_get_default model_class num_folds n_jobs mc logger =
     (case get_class model_class of
        Inl e \<Rightarrow> Inl e
      | Inr cls \<Rightarrow>
          (case hyper_get_default num_folds n_jobs mc cls logger of
             Inl e \<Rightarrow> Inl e
           | Inr hyper_conf \<Rightarrow> instantiate cls (Args3 mc hyper_conf logger)))"

text \<open>
  \<^verbatim>\<open>ClassifierConfFactory.get_methods\<close>. \<open>all_classifiers\<close> is what
  \<^verbatim>\<open>ConfFactory.get_methods(self)\<close> returns and \<open>get_class\<close> is \<^verbatim>\<open>self.get_class\<close>.
  The comprehension goes through the names in order and stops at the first error.
\<close>

fun methods_of_type ::
  "(string \<Rightarrow> error + pyclass) \<Rightarrow> ClassifierType \<Rightarrow> string list \<Rightarrow> error + string list" where
  "methods_of_type get_class t [] = Inr []"
| "methods_of_type get_class t (c # cs) =
     (case get_class c of
        Inl e \<Rightarrow> Inl e
      | Inr cls \<Rightarrow>
          (case get_classifier_type cls of
             Inl e \<Rightarrow> Inl e
           | Inr ty \<Rightarrow>
               (case methods_of_type get_class t cs of
                  Inl e \<Rightarrow> Inl e
                | Inr r \<Rightarrow> Inr (if ty = Some t then c # r else r))))"

definition get_methods ::
  "string list \<Rightarrow> (string \<Rightarrow> error + pyclass) \<Rightarrow> ClassifierType option \<Rightarrow> error + string list" where
  "get_methods all_classifiers get_class classifier_type =
     (case classifier_type of
        None \<Rightarrow> Inr all_classifiers
      | Some t \<Rightarrow> methods_of_type get_class t all_classifiers)"

section \<open>Extraction of the supervision\<close>

text \<open>
  \<^verbatim>\<open>instances.get_annotations(ground_truth).get_supervision(multiclass)\<close> is code of
  the data module: an instances object is taken as the function that gives, for the two
  flags, the reference of the array the annotations hand out.
\<close>

type_synonym instances = "bool \<Rightarrow> bool \<Rightarrow> ref"

text \<open>\<^verbatim>\<open>ClassifierConf.get_supervision\<close>: no check, no copy, \<open>check\<close> is not read.\<close>

definition ClassifierConf_get_supervision :: "'h conf \<Rightarrow> instances \<Rightarrow> bool \<Rightarrow> bool \<Rightarrow> ref" where
  "ClassifierConf_get_supervision self inst ground_truth check = inst ground_truth (multiclass self)"

text \<open>\<^verbatim>\<open>SupervisedClassifierConf.get_supervision\<close>.\<close>

definition SupervisedClassifierConf_get_supervision ::
  "(string \<Rightarrow> int option) \<Rightarrow> 'h conf \<Rightarrow> instances \<Rightarrow> bool \<Rightarrow> bool \<Rightarrow> store \<Rightarrow> (error + ref) \<times> store" where
  "SupervisedClassifierConf_get_supervision int_of_str self inst ground_truth check h =
     (let supervision = ClassifierConf_get_supervision self inst ground_truth check in
      if \<not> np_all (ne_None (cells h supervision)) then (Inl MissingAnnotations, h)
      else if check \<and> length (py_set (cells h supervision)) < 2 then (Inl AtLeastTwoClasses, h)
      else if multiclass self then
        (case alloc h (astype_str (cells h supervision)) of (r, h') \<Rightarrow> (Inr r, h'))
      else
        (case astype_int int_of_str (cells h supervision) of
           Inl e \<Rightarrow> (Inl e, h)
         | Inr a \<Rightarrow> (case alloc h a of (r, h') \<Rightarrow> (Inr r, h'))))"

text \<open>\<^verbatim>\<open>UnsupervisedClassifierConf.supervision\<close>; \<open>None\<close> is Python's \<^verbatim>\<open>None\<close>.\<close>

definition UnsupervisedClassifierConf_supervision ::
  "(string \<Rightarrow> int option) \<Rightarrow> 'h conf \<Rightarrow> instances \<Rightarrow> bool \<Rightarrow> bool \<Rightarrow> store \<Rightarrow>
   (error + ref option) \<times> store" where
  "UnsupervisedClassifierConf_supervision int_of_str self inst ground_truth check h =
     (if \<not> ground_truth then (Inr None, h)
      else
        (case astype_int int_of_str
                (cells h (ClassifierConf_get_supervision self inst ground_truth check)) of
           Inl e \<Rightarrow> (Inl e, h)
         | Inr a \<Rightarrow> (case alloc h a of (r, h') \<Rightarrow> (Inr (Some r), h'))))"

text \<open>\<^verbatim>\<open>SemiSupervisedClassifierConf.get_supervision\<close>.\<close>

definition SemiSupervisedClassifierConf_get_supervision ::
  "(string \<Rightarrow> int option) \<Rightarrow> 'h conf \<Rightarrow> instances \<Rightarrow> bool \<Rightarrow> bool \<Rightarrow> store \<Rightarrow> (error + ref) \<times> store" where
  "SemiSupervisedClassifierConf_get_supervision int_of_str self inst ground_truth check h =
     (case deepcopy h (ClassifierConf_get_supervision self inst ground_truth check) of
        (supervision, h1) \<Rightarrow>
          (let mask_unnanotated = eq_None (cells h1 supervision);
               h2 = setitem h1 supervision mask_unnanotated (- 1)
           in case astype_int int_of_str (cells h2 supervision) of
                Inl e \<Rightarrow> (Inl e, h2)
              | Inr a \<Rightarrow> (case alloc h2 a of (r, h3) \<Rightarrow> (Inr r, h3))))"

text \<open>
  A method call \<^verbatim>\<open>conf.name(instances, ground_truth=..., check=...)\<close>: the attribute
  is looked up on the class of the object and the function found is run. No attribute of
  that name raises AttributeError; a constructor does not take these keywords.
\<close>

definition some_ref :: "(error + ref) \<times> store \<Rightarrow> (error + ref option) \<times> store" where
  "some_ref r = (case r of (Inl e, h) \<Rightarrow> (Inl e, h) | (Inr p, h) \<Rightarrow> (Inr (Some p), h))"

definition call_method ::
  "(string \<Rightarrow> int option) \<Rightarrow> 'h conf \<Rightarrow> string \<Rightarrow> instances \<Rightarrow> bool \<Rightarrow> bool \<Rightarrow> store \<Rightarrow>
   (error + ref option) \<times> store" where
  "call_method int_of_str self name inst ground_truth check h =
     (case lookup_attr (conf_class self) name of
        None \<Rightarrow> (Inl AttributeError, h)
      | Some Fn_ClassifierConf_get_supervision \<Rightarrow>
          (Inr (Some (ClassifierConf_get_supervision self inst ground_truth check)), h)
      | Some Fn_SupervisedClassifierConf_get_supervision \<Rightarrow>
          some_ref (SupervisedClassifierConf_get_supervision int_of_str self inst ground_truth check h)
      | Some Fn_UnsupervisedClassifierConf_supervision \<Rightarrow>
          UnsupervisedClassifierConf_supervision int_of_str self inst ground_truth check h
      | Some Fn_SemiSupervisedClassifierConf_get_supervision \<Rightarrow>
          some_ref (SemiSupervisedClassifierConf_get_supervision int_of_str self inst ground_truth check h)
      | Some _ \<Rightarrow> (Inl TypeError, h))"

text \<open>\<^verbatim>\<open>conf.get_supervision(instances, ground_truth, check)\<close>, as callers write it.\<close>

definition get_supervision ::
  "(string \<Rightarrow> int option) \<Rightarrow> 'h conf \<Rightarrow> instances \<Rightarrow> bool \<Rightarrow> bool \<Rightarrow> store \<Rightarrow>
   (error + ref option) \<times> store" where
  "get_supervision int_of_str self inst ground_truth check h =
     call_method int_of_str self ''get_supervision'' inst ground_truth check h"

section \<open>The paradigm of a registered method\<close>

text \<open>
  The paradigm tag of the class a method name resolves to, and the classes that derive
  from one of the three paradigm classes.
\<close>

definition resolved_type :: "(string \<Rightarrow> error + pyclass) \<Rightarrow> string \<Rightarrow> ClassifierType option" where
  "resolved_type get_class m =
     (case get_class m of
        Inl e \<Rightarrow> None
      | Inr cls \<Rightarrow> (case get_classifier_type cls of Inl e \<Rightarrow> None | Inr ty \<Rightarrow> ty))"

definition paradigm_leaf :: "pyclass \<Rightarrow> bool" where
  "paradigm_leaf cls =
     (issubclass cls UnsupervisedClassifierConf_cls
      \<or> issubclass cls SemiSupervisedClassifierConf_cls
      \<or> issubclass cls SupervisedClassifierConf_cls)"

section \<open>Example objects\<close>

text \<open>
  Leaf classes as the classifier modules define them (one per paradigm, and one that
  lists two paradigm classes as bases), a registry, and a store with the arrays of an
  instances object: binary labels at 0 (partly annotated) and 1 (ground truth), families
  at 2 and 3, and at 4 the labels of a dataset whose only class is written as
  \<^verbatim>\<open>True\<close> and as \<^verbatim>\<open>1\<close>.
\<close>

definition ex_ops :: leaf_ops where
  "ex_ops = \<lparr>get_model_class_name = ''Model'', is_probabilist = True,
             get_feature_importance = Weight\<rparr>"

definition ex_unsupervised_leaf :: pyclass where
  "ex_unsupervised_leaf =
     PyClass ''ExUnsupervisedConf'' [UnsupervisedClassifierConf_cls] (Some ex_ops)"

definition ex_semisupervised_leaf :: pyclass where
  "ex_semisupervised_leaf =
     PyClass ''ExSemiSupervisedConf'' [SemiSupervisedClassifierConf_cls] (Some ex_ops)"

definition ex_supervised_leaf :: pyclass where
  "ex_supervised_leaf =
     PyClass ''ExSupervisedConf'' [SupervisedClassifierConf_cls] (Some ex_ops)"

definition ex_mixed_leaf :: pyclass where
  "ex_mixed_leaf =
     PyClass ''ExMixedConf'' [SupervisedClassifierConf_cls, UnsupervisedClassifierConf_cls]
       (Some ex_ops)"

definition ex_conf :: "pyclass \<Rightarrow> bool \<Rightarrow> unit conf" where
  "ex_conf cls mc =
     \<lparr>conf_class = cls, multiclass = mc, hyperparam_conf = (), accept_sparse = False,
      probabilist = True, feature_importance = Weight, model_class_name = ''Model''\<rparr>"

definition ex_all_classifiers :: "string list" where
  "ex_all_classifiers = [''ExUnsupervised'', ''ExSupervised'', ''ExSemiSupervised'', ''ExMixed'']"

definition ex_get_class :: "string \<Rightarrow> error + pyclass" where
  "ex_get_class m =
     (if m = ''ExUnsupervised'' then Inr ex_unsupervised_leaf
      else if m = ''ExSupervised'' then Inr ex_supervised_leaf
      else if m = ''ExSemiSupervised'' then Inr ex_semisupervised_leaf
      else if m = ''ExMixed'' then Inr ex_mixed_leaf
      else Inl (KeyError m))"

definition ex_hyper_get_default :: "int \<Rightarrow> int \<Rightarrow> bool \<Rightarrow> pyclass \<Rightarrow> unit \<Rightarrow> error + unit" where
  "ex_hyper_get_default num_folds n_jobs mc cls logger = Inr ()"

text \<open>
  No string of the examples is an integer literal: on each of them Python's
  \<^verbatim>\<open>int()\<close> raises ValueError, which is all the example parser has to say.
\<close>

definition ex_int_of_str :: "string \<Rightarrow> int option" where
  "ex_int_of_str s = None"

definition ex_cells :: "ref \<Rightarrow> ndarray" where
  "ex_cells p =
     (if p = 0 then ObjArr [PyBool True, PyNone, PyBool False]
      else if p = 1 then ObjArr [PyBool True, PyBool True, PyBool False]
      else if p = 2 then ObjArr [PyStr ''a'', PyNone, PyStr ''b'']
      else if p = 3 then ObjArr [PyStr ''a'', PyStr ''a'', PyStr ''b'']
      else if p = 4 then ObjArr [PyBool True, PyInt 1]
      else ObjArr [])"

definition ex_store :: store where
  "ex_store = \<lparr>cells = ex_cells, next_ref = 5\<rparr>"

definition ex_instances :: instances where
  "ex_instances ground_truth mc = (if mc then 2 else 0) + (if ground_truth then 1 else 0)"

definition ex_one_class :: instances where
  "ex_one_class ground_truth mc = 4"

text \<open>
  A second store, with one array of family names as an annotation object may hold them:
  a name that ends with a NUL character, a boolean and an integer.
\<close>

definition ex_names_store :: store where
  "ex_names_store =
     \<lparr>cells = (\<lambda>p. ObjArr [PyStr [CHR ''a'', CHR 0x00], PyBool True, PyInt (- 12)]),
      next_ref = 1\<rparr>"

definition ex_names :: instances where
  "ex_names ground_truth mc = 0"

section \<open>The class hierarchy\<close>


lemmas cls_defs = Conf_cls_def ClassifierConf_cls_def SupervisedClassifierConf_cls_def
  UnsupervisedClassifierConf_cls_def SemiSupervisedClassifierConf_cls_def

lemma issubclass_refl: "issubclass c c"
  by (cases c) simp

lemma issubclass_trans: "issubclass a b \<Longrightarrow> issubclass b c \<Longrightarrow> issubclass a c"
  by (induction a) auto

lemma issubclass_size: "issubclass b x \<Longrightarrow> size x \<le> size b"
proof (induction b)
  case (PyClass n bs l)
  show ?case
  proof (cases "PyClass n bs l = x")
    case True
    then show ?thesis by auto
  next
    case False
    with PyClass.prems obtain b where b: "b \<in> set bs" and s: "issubclass b x" by auto
    from PyClass.IH [OF b s] have "size x \<le> size b" .
    with b have "size x \<le> size_list size bs" by (rule size_list_estimation')
    then show ?thesis by simp
  qed
qed

lemma c3_merge_one: "distinct L \<Longrightarrow> c3_merge [L] = Some L"
proof (induction L)
  case Nil
  show ?case by (subst c3_merge.simps) (simp add: live_seqs_def)
next
  case (Cons x xs)
  then have "c3_merge [xs] = Some xs" by simp
  moreover have "x \<notin> set xs" using Cons.prems by simp
  ultimately show ?case
    by (subst c3_merge.simps) (simp add: live_seqs_def good_head_def drop_head_def)
qed

lemma c3_merge_single_base:
  assumes "distinct (b # rest)"
  shows "c3_merge [b # rest, [b]] = Some (b # rest)"
proof -
  from assms have d: "distinct rest" and n: "b \<notin> set rest" by simp_all
  have "c3_merge [rest, []] = Some rest"
  proof (cases rest)
    case Nil
    then show ?thesis by (subst c3_merge.simps) (simp add: live_seqs_def)
  next
    case (Cons x xs)
    from c3_merge_one [OF d] have o: "c3_merge [rest] = Some rest" .
    have l: "live_seqs [rest, []] = live_seqs [rest]" by (simp add: live_seqs_def)
    show ?thesis
      by (subst c3_merge.simps, subst (1 2 3 4) l, subst c3_merge.simps [symmetric]) (rule o)
  qed
  with n show ?thesis
    by (subst c3_merge.simps) (simp add: live_seqs_def good_head_def drop_head_def)
qed

lemma mro_single_base:
  assumes "mro b = Some (b # rest)" and "distinct (b # rest)"
  shows "mro (PyClass n [b] l) = Some (PyClass n [b] l # b # rest)"
  using assms c3_merge_single_base [OF assms(2)] by simp

lemma mro_head: "mro c = Some L \<Longrightarrow> \<exists>r. L = c # r"
  by (cases c) (auto split: option.splits)


lemma mro_no_base: "mro (PyClass n [] l) = Some [PyClass n [] l]"
  by (simp add: c3_merge.simps live_seqs_def)

lemma mro_base_classes:
  "mro Conf_cls = Some [Conf_cls]"
  "mro ClassifierConf_cls = Some [ClassifierConf_cls, Conf_cls]"
proof -
  show c: "mro Conf_cls = Some [Conf_cls]"
    unfolding Conf_cls_def by (rule mro_no_base)
  have "distinct [Conf_cls]" by simp
  from mro_single_base [OF c this, of "''ClassifierConf''" None]
  show "mro ClassifierConf_cls = Some [ClassifierConf_cls, Conf_cls]"
    by (simp add: ClassifierConf_cls_def)
qed

lemma mro_paradigm:
  assumes "p = UnsupervisedClassifierConf_cls \<or> p = SupervisedClassifierConf_cls
         \<or> p = SemiSupervisedClassifierConf_cls"
  shows "mro p = Some [p, ClassifierConf_cls, Conf_cls]"
proof -
  have d: "distinct [ClassifierConf_cls, Conf_cls]" by (simp add: cls_defs)
  note m = mro_single_base [OF mro_base_classes(2) d]
  from assms m [of "''UnsupervisedClassifierConf''" None]
    m [of "''SupervisedClassifierConf''" None] m [of "''SemiSupervisedClassifierConf''" None]
  show ?thesis
    by (auto simp: SupervisedClassifierConf_cls_def UnsupervisedClassifierConf_cls_def
        SemiSupervisedClassifierConf_cls_def)
qed

lemma paradigm_ancestors:
  assumes "p = UnsupervisedClassifierConf_cls \<or> p = SupervisedClassifierConf_cls
         \<or> p = SemiSupervisedClassifierConf_cls"
  shows "distinct [p, ClassifierConf_cls, Conf_cls]"
    and "\<forall>x \<in> set [p, ClassifierConf_cls, Conf_cls]. issubclass p x"
  using assms by (auto simp: cls_defs)

lemma mro_derives:
  assumes "derives_singly c p" and "mro p = Some Lp" and "distinct Lp"
    and "\<forall>x \<in> set Lp. issubclass p x"
  shows "\<exists>pre. mro c = Some (pre @ Lp) \<and> distinct (pre @ Lp)
           \<and> (\<forall>x \<in> set (pre @ Lp). issubclass c x)
           \<and> (\<forall>k \<in> set pre. derives_singly k p \<and> k \<noteq> p)"
  using assms(1)
proof (induction c)
  case (PyClass n bs l)
  let ?c = "PyClass n bs l"
  show ?case
  proof (cases "?c = p")
    case True
    with assms(2,3,4) have "mro ?c = Some ([] @ Lp) \<and> distinct ([] @ Lp)
           \<and> (\<forall>x \<in> set ([] @ Lp). issubclass ?c x)
           \<and> (\<forall>k \<in> set []. derives_singly k p \<and> k \<noteq> p)"
      by simp
    then show ?thesis by blast
  next
    case False
    with PyClass.prems obtain b where bs: "bs = [b]" and d: "derives_singly b p"
      by (auto split: list.splits)
    from PyClass.IH [of b] bs d obtain pre where
      m: "mro b = Some (pre @ Lp)" and dist: "distinct (pre @ Lp)"
      and anc: "\<forall>x \<in> set (pre @ Lp). issubclass b x"
      and below: "\<forall>k \<in> set pre. derives_singly k p \<and> k \<noteq> p"
      by auto
    from mro_head [OF m] obtain rest where r: "pre @ Lp = b # rest" by blast
    have mc: "mro ?c = Some (?c # pre @ Lp)"
      using mro_single_base [of b rest n l] m dist r bs by simp
    have notin: "?c \<notin> set (pre @ Lp)"
    proof
      assume "?c \<in> set (pre @ Lp)"
      with anc have "issubclass b ?c" by blast
      from issubclass_size [OF this] bs show False by simp
    qed
    have up: "\<forall>x \<in> set (pre @ Lp). issubclass ?c x"
      using anc bs by auto
    have "mro ?c = Some ((?c # pre) @ Lp) \<and> distinct ((?c # pre) @ Lp)
           \<and> (\<forall>x \<in> set ((?c # pre) @ Lp). issubclass ?c x)
           \<and> (\<forall>k \<in> set (?c # pre). derives_singly k p \<and> k \<noteq> p)"
      using mc dist notin up below PyClass.prems False by auto
    then show ?thesis by blast
  qed
qed

lemma first_some_skip:
  "\<forall>x \<in> set xs. f x = None \<Longrightarrow> first_some (map f (xs @ ys)) = first_some (map f ys)"
  by (induction xs) auto


lemma derives_singly_issubclass: "derives_singly c p \<Longrightarrow> issubclass c p"
  by (induction c) (auto split: list.splits)

lemma paradigm_sub_base:
  "issubclass UnsupervisedClassifierConf_cls ClassifierConf_cls"
  "issubclass SemiSupervisedClassifierConf_cls ClassifierConf_cls"
  "issubclass SupervisedClassifierConf_cls ClassifierConf_cls"
  by (simp_all add: cls_defs)

lemma mro_paradigms:
  "mro UnsupervisedClassifierConf_cls
     = Some [UnsupervisedClassifierConf_cls, ClassifierConf_cls, Conf_cls]"
  "mro SupervisedClassifierConf_cls
     = Some [SupervisedClassifierConf_cls, ClassifierConf_cls, Conf_cls]"
  "mro SemiSupervisedClassifierConf_cls
     = Some [SemiSupervisedClassifierConf_cls, ClassifierConf_cls, Conf_cls]"
  using mro_paradigm by simp_all

lemma lookup_attr_paradigms:
  "lookup_attr UnsupervisedClassifierConf_cls ''__init__'' = Some Fn_UnsupervisedClassifierConf_init"
  "lookup_attr UnsupervisedClassifierConf_cls ''get_supervision'' = Some Fn_ClassifierConf_get_supervision"
  "lookup_attr UnsupervisedClassifierConf_cls ''supervision'' = Some Fn_UnsupervisedClassifierConf_supervision"
  "lookup_attr SupervisedClassifierConf_cls ''__init__'' = Some Fn_SupervisedClassifierConf_init"
  "lookup_attr SupervisedClassifierConf_cls ''get_supervision'' = Some Fn_SupervisedClassifierConf_get_supervision"
  "lookup_attr SemiSupervisedClassifierConf_cls ''__init__'' = Some Fn_SemiSupervisedClassifierConf_init"
  "lookup_attr SemiSupervisedClassifierConf_cls ''get_supervision'' = Some Fn_SemiSupervisedClassifierConf_get_supervision"
  by (simp_all only: lookup_attr_def mro_paradigms option.case)
    (simp_all add: own_attr_def cls_defs)

lemma not_derives_paradigm:
  "\<not> derives_singly ClassifierConf_cls UnsupervisedClassifierConf_cls"
  "\<not> derives_singly ClassifierConf_cls SupervisedClassifierConf_cls"
  "\<not> derives_singly ClassifierConf_cls SemiSupervisedClassifierConf_cls"
  "\<not> derives_singly SupervisedClassifierConf_cls UnsupervisedClassifierConf_cls"
  "\<not> derives_singly SemiSupervisedClassifierConf_cls UnsupervisedClassifierConf_cls"
  "\<not> derives_singly UnsupervisedClassifierConf_cls SupervisedClassifierConf_cls"
  "\<not> derives_singly SemiSupervisedClassifierConf_cls SupervisedClassifierConf_cls"
  "\<not> derives_singly UnsupervisedClassifierConf_cls SemiSupervisedClassifierConf_cls"
  "\<not> derives_singly SupervisedClassifierConf_cls SemiSupervisedClassifierConf_cls"
  by (simp_all add: cls_defs)


lemma own_attr_below:
  assumes "derives_singly c p" and "c \<noteq> p"
    and "p = UnsupervisedClassifierConf_cls \<or> p = SupervisedClassifierConf_cls
         \<or> p = SemiSupervisedClassifierConf_cls"
  shows "own_attr c a = None"
proof -
  have "c \<noteq> ClassifierConf_cls" "c \<noteq> UnsupervisedClassifierConf_cls"
    "c \<noteq> SupervisedClassifierConf_cls" "c \<noteq> SemiSupervisedClassifierConf_cls"
    using assms not_derives_paradigm by auto
  then show ?thesis by (simp add: own_attr_def)
qed

lemma lookup_attr_inherited:
  assumes "derives_singly c p"
    and "p = UnsupervisedClassifierConf_cls \<or> p = SupervisedClassifierConf_cls
         \<or> p = SemiSupervisedClassifierConf_cls"
  shows "lookup_attr c a = lookup_attr p a"
proof -
  let ?L = "[p, ClassifierConf_cls, Conf_cls]"
  from mro_derives [OF assms(1) mro_paradigm [OF assms(2)] paradigm_ancestors [OF assms(2)]]
  obtain pre where m: "mro c = Some (pre @ ?L)"
    and below: "\<forall>k \<in> set pre. derives_singly k p \<and> k \<noteq> p"
    by blast
  have "\<forall>k \<in> set pre. own_attr k a = None"
    using below own_attr_below [OF _ _ assms(2)] by blast
  then have "first_some (map (\<lambda>k. own_attr k a) (pre @ ?L))
               = first_some (map (\<lambda>k. own_attr k a) ?L)"
    by (rule first_some_skip)
  then show ?thesis
    by (simp only: lookup_attr_def m mro_paradigm [OF assms(2)] option.case)
qed

lemma lookup_ops_own:
  assumes "mro c = Some L" and "cleaf c = Some ops"
  shows "lookup_ops c = Some ops"
  using assms mro_head [OF assms(1)] by (auto simp: lookup_ops_def)

lemma lookup_ops_leaf:
  assumes "derives_singly c p"
    and "p = UnsupervisedClassifierConf_cls \<or> p = SupervisedClassifierConf_cls
         \<or> p = SemiSupervisedClassifierConf_cls"
    and "cleaf c = Some ops"
  shows "lookup_ops c = Some ops"
proof -
  from mro_derives [OF assms(1) mro_paradigm [OF assms(2)] paradigm_ancestors [OF assms(2)]]
  obtain L where "mro c = Some L" by blast
  then show ?thesis using assms(3) by (rule lookup_ops_own)
qed

lemma not_classifier_conf:
  assumes "\<not> issubclass c ClassifierConf_cls"
  shows "\<not> issubclass c UnsupervisedClassifierConf_cls"
    and "\<not> issubclass c SemiSupervisedClassifierConf_cls"
    and "\<not> issubclass c SupervisedClassifierConf_cls"
  using assms issubclass_trans paradigm_sub_base by blast+

text \<open>
  Claim C6. \<^verbatim>\<open>get_classifier_type\<close> tests derivation from the unsupervised, the
  semi-supervised, then the supervised class, and the first test that holds decides; a
  class deriving from none of them but from \<^verbatim>\<open>ClassifierConf\<close> gives \<^verbatim>\<open>None\<close>; a class
  that does not derive from \<^verbatim>\<open>ClassifierConf\<close> raises ValueError with its name.
\<close>

theorem get_classifier_type_order:
  "(issubclass c UnsupervisedClassifierConf_cls \<longrightarrow>
      get_classifier_type c = Inr (Some unsupervised))
   \<and> (\<not> issubclass c UnsupervisedClassifierConf_cls
        \<and> issubclass c SemiSupervisedClassifierConf_cls \<longrightarrow>
      get_classifier_type c = Inr (Some semisupervised))
   \<and> (\<not> issubclass c UnsupervisedClassifierConf_cls
        \<and> \<not> issubclass c SemiSupervisedClassifierConf_cls
        \<and> issubclass c SupervisedClassifierConf_cls \<longrightarrow>
      get_classifier_type c = Inr (Some supervised))
   \<and> (\<not> issubclass c UnsupervisedClassifierConf_cls
        \<and> \<not> issubclass c SemiSupervisedClassifierConf_cls
        \<and> \<not> issubclass c SupervisedClassifierConf_cls
        \<and> issubclass c ClassifierConf_cls \<longrightarrow>
      get_classifier_type c = Inr None)
   \<and> (\<not> issubclass c ClassifierConf_cls \<longrightarrow>
      get_classifier_type c =
        Inl (ValueError (cname c @ '' is not a classifier configuration.'')))"
  using not_classifier_conf [of c] by (simp add: get_classifier_type_def)

lemma paradigm_leaf_type:
  "paradigm_leaf cls \<Longrightarrow> \<exists>t. get_classifier_type cls = Inr (Some t)"
  by (auto simp: paradigm_leaf_def get_classifier_type_def)

lemma methods_of_type_filter:
  assumes "\<forall>m \<in> set ms. \<exists>cls. get_class m = Inr cls \<and> paradigm_leaf cls"
  shows "methods_of_type get_class t ms =
           Inr (filter (\<lambda>m. resolved_type get_class m = Some t) ms)"
  using assms
proof (induction ms)
  case Nil
  show ?case by simp
next
  case (Cons m ms)
  from Cons.prems obtain cls where c: "get_class m = Inr cls" and l: "paradigm_leaf cls"
    by auto
  from paradigm_leaf_type [OF l] obtain ty where ty: "get_classifier_type cls = Inr (Some ty)"
    by blast
  have "methods_of_type get_class t ms =
          Inr (filter (\<lambda>m. resolved_type get_class m = Some t) ms)"
    using Cons by simp
  with c ty show ?case by (simp add: resolved_type_def)
qed

lemma resolved_type_leaf:
  assumes "get_class m = Inr cls" and "paradigm_leaf cls"
  shows "\<exists>t. resolved_type get_class m = Some t"
  using assms paradigm_leaf_type [of cls] by (auto simp: resolved_type_def)

text \<open>
  Claim C7. When every name of the registry resolves to a class of one of the three
  paradigms, \<^verbatim>\<open>get_methods\<close> without a type returns all names, with a type \<open>t\<close> exactly
  the names whose class has tag \<open>t\<close>, in order, and the three filtered lists are disjoint
  and together hold every name.
\<close>

theorem get_methods_partition:
  assumes "\<forall>m \<in> set all_classifiers. \<exists>cls. get_class m = Inr cls \<and> paradigm_leaf cls"
  shows "get_methods all_classifiers get_class None = Inr all_classifiers
    \<and> (\<forall>t. get_methods all_classifiers get_class (Some t) =
              Inr (filter (\<lambda>m. resolved_type get_class m = Some t) all_classifiers))
    \<and> (\<exists>us ss ps.
          get_methods all_classifiers get_class (Some unsupervised) = Inr us
        \<and> get_methods all_classifiers get_class (Some semisupervised) = Inr ss
        \<and> get_methods all_classifiers get_class (Some supervised) = Inr ps
        \<and> set us \<union> set ss \<union> set ps = set all_classifiers
        \<and> set us \<inter> set ss = {} \<and> set us \<inter> set ps = {} \<and> set ss \<inter> set ps = {}
        \<and> length us + length ss + length ps = length all_classifiers)"
proof -
  let ?f = "\<lambda>t. filter (\<lambda>m. resolved_type get_class m = Some t) all_classifiers"
  have every: "\<forall>t. get_methods all_classifiers get_class (Some t) = Inr (?f t)"
    using methods_of_type_filter [OF assms] by (simp add: get_methods_def)
  have tot: "\<forall>m \<in> set all_classifiers. \<exists>t. resolved_type get_class m = Some t"
    using assms resolved_type_leaf by blast
  have cover: "set (?f unsupervised) \<union> set (?f semisupervised) \<union> set (?f supervised)
                 = set all_classifiers"
  proof -
    have "\<And>m. m \<in> set all_classifiers \<Longrightarrow>
            resolved_type get_class m = Some unsupervised
          \<or> resolved_type get_class m = Some semisupervised
          \<or> resolved_type get_class m = Some supervised"
    proof -
      fix m assume "m \<in> set all_classifiers"
      with tot obtain t where "resolved_type get_class m = Some t" by blast
      then show "resolved_type get_class m = Some unsupervised
          \<or> resolved_type get_class m = Some semisupervised
          \<or> resolved_type get_class m = Some supervised"
        by (cases t) simp_all
    qed
    then show ?thesis by auto
  qed
  have len: "length (?f unsupervised) + length (?f semisupervised) + length (?f supervised)
               = length all_classifiers"
    using tot
  proof (induction all_classifiers)
    case Nil
    show ?case by simp
  next
    case (Cons m ms)
    then obtain t where "resolved_type get_class m = Some t" by auto
    with Cons show ?case by (cases t) simp_all
  qed
  have "get_methods all_classifiers get_class None = Inr all_classifiers"
    by (simp add: get_methods_def)
  moreover have "set (?f unsupervised) \<inter> set (?f semisupervised) = {}"
    "set (?f unsupervised) \<inter> set (?f supervised) = {}"
    "set (?f semisupervised) \<inter> set (?f supervised) = {}"
    by auto
  ultimately show ?thesis using every cover len by blast
qed


lemma ints_of_Inr_iff:
  "ints_of f xs = Inr v \<longleftrightarrow> list_all2 (\<lambda>x i. py_int f x = Inr i) xs v"
proof (induction xs arbitrary: v)
  case Nil
  show ?case by auto
next
  case (Cons x xs)
  show ?case
  proof (cases "py_int f x")
    case (Inl e)
    then show ?thesis by (auto simp: list_all2_Cons1)
  next
    case (Inr i)
    show ?thesis
    proof (cases "ints_of f xs")
      case (Inl e)
      with Inr Cons.IH show ?thesis by (auto simp: list_all2_Cons1)
    next
      case r: (Inr r)
      with Inr Cons.IH show ?thesis by (auto simp: list_all2_Cons1)
    qed
  qed
qed

lemma py_int_error:
  "py_int f x = Inl e \<Longrightarrow> e \<noteq> MissingAnnotations \<and> e \<noteq> AtLeastTwoClasses"
  by (cases x) (auto split: option.splits if_splits)

lemma ints_of_error:
  "ints_of f xs = Inl e \<Longrightarrow> e \<noteq> MissingAnnotations \<and> e \<noteq> AtLeastTwoClasses"
proof (induction xs)
  case Nil
  then show ?case by simp
next
  case (Cons x xs)
  then show ?case
    using py_int_error [of f x] by (auto split: sum.splits)
qed

lemma astype_int_error:
  "astype_int f a = Inl e \<Longrightarrow> e \<noteq> MissingAnnotations \<and> e \<noteq> AtLeastTwoClasses"
  using ints_of_error [of f "to_objs a" e] by (auto simp: astype_int_def split: sum.splits)

lemma to_objs_put_mask:
  "to_objs (put_mask a (eq_None a) v) =
     map (\<lambda>x. if x = PyNone then PyInt v else x) (to_objs a)"
  by (cases a) (simp_all add: eq_None_def zip_map2 zip_same_conv_map comp_def)

lemma sentinel_codes:
  "list_all2 (\<lambda>x i. py_int f x = Inr i) (map (\<lambda>x. if x = PyNone then PyInt (- 1) else x) xs) v
   \<longleftrightarrow> list_all2 (\<lambda>x i. if x = PyNone then i = - 1 else py_int f x = Inr i) xs v"
proof -
  have "\<And>x i. (py_int f (if x = PyNone then PyInt (- 1) else x) = Inr i)
            = (if x = PyNone then i = - 1 else py_int f x = Inr i)"
    by (auto simp: in_int64_def)
  then show ?thesis by (simp add: list_all2_map1)
qed

lemma codes_exist:
  assumes "\<forall>x \<in> set xs. x \<noteq> PyNone \<longrightarrow> (\<exists>i. py_int f x = Inr i)"
  shows "\<exists>v. list_all2 (\<lambda>x i. if x = PyNone then i = - 1 else py_int f x = Inr i) xs v"
  using assms
proof (induction xs)
  case Nil
  show ?case by simp
next
  case (Cons x xs)
  then obtain v where v: "list_all2 (\<lambda>x i. if x = PyNone then i = - 1 else py_int f x = Inr i) xs v"
    by auto
  from Cons.prems obtain i where "if x = PyNone then i = - 1 else py_int f x = Inr i"
    by (cases "x = PyNone") auto
  with v have "list_all2 (\<lambda>x i. if x = PyNone then i = - 1 else py_int f x = Inr i) (x # xs) (i # v)"
    by simp
  then show ?case by blast
qed

lemma get_supervision_semi:
  assumes "derives_singly (conf_class self) SemiSupervisedClassifierConf_cls"
  shows "get_supervision f self inst gt check h =
           some_ref (SemiSupervisedClassifierConf_get_supervision f self inst gt check h)"
  using lookup_attr_inherited [OF assms, of "''get_supervision''"]
  by (simp add: get_supervision_def call_method_def lookup_attr_paradigms)

lemma get_supervision_sup:
  assumes "derives_singly (conf_class self) SupervisedClassifierConf_cls"
  shows "get_supervision f self inst gt check h =
           some_ref (SupervisedClassifierConf_get_supervision f self inst gt check h)"
  using lookup_attr_inherited [OF assms, of "''get_supervision''"]
  by (simp add: get_supervision_def call_method_def lookup_attr_paradigms)

lemma get_supervision_unsup:
  assumes "derives_singly (conf_class self) UnsupervisedClassifierConf_cls"
  shows "get_supervision f self inst gt check h =
           (Inr (Some (ClassifierConf_get_supervision self inst gt check)), h)"
  using lookup_attr_inherited [OF assms, of "''get_supervision''"]
  by (simp add: get_supervision_def call_method_def lookup_attr_paradigms)

lemma semi_outcome:
  "SemiSupervisedClassifierConf_get_supervision f self inst gt check h =
     (let a = put_mask (cells h (inst gt (multiclass self)))
                (eq_None (cells h (inst gt (multiclass self)))) (- 1);
          h2 = h\<lparr>cells := (cells h)(next_ref h := a), next_ref := Suc (next_ref h)\<rparr>
      in case astype_int f a of
           Inl e \<Rightarrow> (Inl e, h2)
         | Inr r \<Rightarrow> (Inr (Suc (next_ref h)),
                     h2\<lparr>cells := (cells h2)(Suc (next_ref h) := r),
                        next_ref := Suc (Suc (next_ref h))\<rparr>))"
  by (simp add: SemiSupervisedClassifierConf_get_supervision_def deepcopy_def alloc_def
      setitem_def ClassifierConf_get_supervision_def Let_def split: sum.splits)


lemma semi_frame:
  assumes "p < next_ref h"
  shows "cells (snd (SemiSupervisedClassifierConf_get_supervision f self inst gt check h)) p
           = cells h p"
  using assms by (simp add: semi_outcome Let_def split: sum.splits)

lemma snd_some_ref: "snd (some_ref r) = snd r"
  by (cases r) (auto simp: some_ref_def split: sum.splits)

lemma fst_some_ref_error: "fst (some_ref r) = Inl e \<longleftrightarrow> fst r = Inl e"
  by (cases r) (auto simp: some_ref_def split: sum.splits)

text \<open>
  Claim C10. On a semi-supervised configuration, \<^verbatim>\<open>get_supervision\<close> writes the
  sentinel into a copy: every array the instances object hands out holds after the call
  what it held before.
\<close>

theorem semisupervised_keeps_annotations:
  assumes "derives_singly (conf_class self) SemiSupervisedClassifierConf_cls"
    and "\<forall>g m. inst g m < next_ref h"
  shows "\<forall>g m. cells (snd (get_supervision f self inst gt check h)) (inst g m)
                 = cells h (inst g m)"
  using assms(2)
  by (simp add: get_supervision_semi [OF assms(1)] snd_some_ref semi_frame)


lemma semi_sentinel_result:
  assumes "derives_singly (conf_class self) SemiSupervisedClassifierConf_cls"
    and "labels = to_objs (cells h (inst gt (multiclass self)))"
    and "\<forall>x \<in> set labels. x \<noteq> PyNone \<longrightarrow> (\<exists>i. py_int f x = Inr i)"
  shows "\<exists>r h' v. get_supervision f self inst gt check h = (Inr (Some r), h')
          \<and> cells h' r = IntArr v
          \<and> length v = length labels
          \<and> (\<forall>i < length labels.
                (labels ! i = PyNone \<longrightarrow> v ! i = - 1)
              \<and> (labels ! i \<noteq> PyNone \<longrightarrow> py_int f (labels ! i) = Inr (v ! i)))"
proof -
  let ?a = "cells h (inst gt (multiclass self))"
  let ?b = "put_mask ?a (eq_None ?a) (- 1)"
  from codes_exist [OF assms(3)] obtain v where
    v: "list_all2 (\<lambda>x i. if x = PyNone then i = - 1 else py_int f x = Inr i) labels v"
    by blast
  then have "ints_of f (to_objs ?b) = Inr v"
    by (simp add: ints_of_Inr_iff to_objs_put_mask sentinel_codes assms(2))
  then have a: "astype_int f ?b = Inr (IntArr v)"
    by (simp add: astype_int_def)
  have "\<exists>h'. get_supervision f self inst gt check h = (Inr (Some (Suc (next_ref h))), h')
          \<and> cells h' (Suc (next_ref h)) = IntArr v"
    by (simp add: get_supervision_semi [OF assms(1)] semi_outcome Let_def a some_ref_def)
  moreover have "length v = length labels"
    using v by (simp add: list_all2_lengthD)
  moreover have "\<forall>i < length labels.
                (labels ! i = PyNone \<longrightarrow> v ! i = - 1)
              \<and> (labels ! i \<noteq> PyNone \<longrightarrow> py_int f (labels ! i) = Inr (v ! i))"
    using v by (auto simp: list_all2_conv_all_nth)
  ultimately show ?thesis by blast
qed

lemma semi_copy_substituted:
  "to_objs (cells (snd (SemiSupervisedClassifierConf_get_supervision f self inst gt check h))
      (next_ref h))
     = map (\<lambda>x. if x = PyNone then PyInt (- 1) else x)
         (to_objs (cells h (inst gt (multiclass self))))"
  by (simp add: semi_outcome Let_def to_objs_put_mask split: sum.splits)




text \<open>
  Claim C3, as amended. On a semi-supervised configuration, \<^verbatim>\<open>get_supervision\<close>
  makes no check for missing annotations (the method of \<^verbatim>\<open>ClassifierConf\<close> it calls
  has none) and no check of the number of classes: it raises neither MissingAnnotations
  nor AtLeastTwoClasses, and \<open>check\<close> does not change its outcome. The unset labels go on
  to the substitution: after every call the copy, the array allocated first, holds the
  labels with \<open>-1\<close> in place of each unset one, and when the set labels convert to
  integers the call returns an array with \<open>-1\<close> at every unset position.
\<close>

theorem semisupervised_no_annotation_check:
  assumes "derives_singly (conf_class self) SemiSupervisedClassifierConf_cls"
    and "labels = to_objs (cells h (inst gt (multiclass self)))"
  shows "fst (get_supervision f self inst gt check h) \<noteq> Inl MissingAnnotations
       \<and> fst (get_supervision f self inst gt check h) \<noteq> Inl AtLeastTwoClasses
       \<and> get_supervision f self inst gt check h = get_supervision f self inst gt (\<not> check) h
       \<and> to_objs (cells (snd (get_supervision f self inst gt check h)) (next_ref h))
           = map (\<lambda>x. if x = PyNone then PyInt (- 1) else x) labels
       \<and> ((\<forall>x \<in> set labels. x \<noteq> PyNone \<longrightarrow> (\<exists>i. py_int f x = Inr i)) \<longrightarrow>
            (\<exists>r h' v. get_supervision f self inst gt check h = (Inr (Some r), h')
                \<and> cells h' r = IntArr v \<and> length v = length labels
                \<and> (\<forall>i < length labels. labels ! i = PyNone \<longrightarrow> v ! i = - 1)))"
proof -
  have "fst (SemiSupervisedClassifierConf_get_supervision f self inst gt check h) = Inl e
        \<Longrightarrow> e \<noteq> MissingAnnotations \<and> e \<noteq> AtLeastTwoClasses" for e
    using astype_int_error [of f _ e]
    by (auto simp: semi_outcome Let_def split: sum.splits)
  moreover have "SemiSupervisedClassifierConf_get_supervision f self inst gt check h
      = SemiSupervisedClassifierConf_get_supervision f self inst gt (\<not> check) h"
    by (simp add: semi_outcome)
  ultimately have a: "fst (get_supervision f self inst gt check h) \<noteq> Inl MissingAnnotations
       \<and> fst (get_supervision f self inst gt check h) \<noteq> Inl AtLeastTwoClasses
       \<and> get_supervision f self inst gt check h = get_supervision f self inst gt (\<not> check) h"
    unfolding get_supervision_semi [OF assms(1)] fst_some_ref_error by metis
  have b: "to_objs (cells (snd (get_supervision f self inst gt check h)) (next_ref h))
           = map (\<lambda>x. if x = PyNone then PyInt (- 1) else x) labels"
    by (simp only: get_supervision_semi [OF assms(1)] snd_some_ref semi_copy_substituted
        assms(2))
  have c: "\<exists>r h' v. get_supervision f self inst gt check h = (Inr (Some r), h')
                \<and> cells h' r = IntArr v \<and> length v = length labels
                \<and> (\<forall>i < length labels. labels ! i = PyNone \<longrightarrow> v ! i = - 1)"
    if "\<forall>x \<in> set labels. x \<noteq> PyNone \<longrightarrow> (\<exists>i. py_int f x = Inr i)"
    using assms that semi_sentinel_result [where self = self and inst = inst and gt = gt
        and h = h and labels = labels and f = f and check = check]
    by blast
  from a b c show ?thesis by blast
qed



lemma np_all_ne_None: "np_all (ne_None a) \<longleftrightarrow> PyNone \<notin> set (to_objs a)"
  by (auto simp: np_all_def ne_None_def list_all_iff)

lemma length_py_set: "length (py_set a) = card (py_key ` set (to_objs a))"
  by (simp add: py_set_def length_remdups_card_conv)

lemma strip_nul_padding: "\<exists>k. s = strip_nul s @ replicate k (CHR 0x00)"
proof -
  let ?P = "\<lambda>c. c = CHR 0x00"
  let ?t = "takeWhile ?P (rev s)"
  let ?d = "dropWhile ?P (rev s)"
  have "rev (?t @ ?d) = s" by simp
  then have "rev ?d @ rev ?t = s" by (simp only: rev_append)
  then have s: "s = strip_nul s @ rev ?t"
    by (simp only: strip_nul_def)
  have "\<forall>c \<in> set (rev ?t). c = CHR 0x00"
    by (auto dest: set_takeWhileD)
  then have "replicate (length (rev ?t)) (CHR 0x00) = rev ?t"
    by (rule replicate_length_same)
  with s have "s = strip_nul s @ replicate (length (rev ?t)) (CHR 0x00)"
    by (simp only:)
  then show ?thesis by blast
qed

lemma strip_nul_end: "strip_nul s = [] \<or> last (strip_nul s) \<noteq> CHR 0x00"
proof (cases "dropWhile (\<lambda>c. c = CHR 0x00) (rev s) = []")
  case True
  then show ?thesis by (simp add: strip_nul_def)
next
  case False
  then have "hd (dropWhile (\<lambda>c. c = CHR 0x00) (rev s)) \<noteq> CHR 0x00"
    by (rule hd_dropWhile)
  with False show ?thesis by (simp add: strip_nul_def last_rev)
qed

lemma strip_nul_same: "s \<noteq> [] \<Longrightarrow> last s \<noteq> CHR 0x00 \<Longrightarrow> strip_nul s = s"
proof -
  assume n: "s \<noteq> []" and l: "last s \<noteq> CHR 0x00"
  from n have "hd (rev s) = last s" by (simp add: hd_rev)
  moreover from n obtain c cs where r: "rev s = c # cs" by (cases "rev s") auto
  ultimately have "c \<noteq> CHR 0x00" using l by simp
  then have "dropWhile (\<lambda>c. c = CHR 0x00) (c # cs) = c # cs" by simp
  then have "dropWhile (\<lambda>c. c = CHR 0x00) (rev s) = rev s" by (simp only: r)
  then show ?thesis by (simp add: strip_nul_def)
qed

lemma digit_char_not_nul: "digit_char d \<noteq> CHR 0x00"
proof -
  have "d mod 10 < length ''0123456789''" by simp
  then have "''0123456789'' ! (d mod 10) \<in> set ''0123456789''" by (rule nth_mem)
  then show ?thesis unfolding digit_char_def by auto
qed

lemma str_of_nat_end: "str_of_nat n \<noteq> [] \<and> last (str_of_nat n) \<noteq> CHR 0x00"
  by (subst (1 2) str_of_nat.simps) (simp add: digit_char_not_nul)

lemma str_of_int_end: "str_of_int i \<noteq> [] \<and> last (str_of_int i) \<noteq> CHR 0x00"
  using str_of_nat_end by (simp add: str_of_int_def)

lemma strip_nul_py_str:
  "strip_nul ''True'' = ''True''"
  "strip_nul ''False'' = ''False''"
  "strip_nul (str_of_int n) = str_of_int n"
  using str_of_int_end [of n] by (simp_all add: strip_nul_same)

text \<open>
  Claim C2. On a supervised configuration, \<^verbatim>\<open>get_supervision\<close> raises
  MissingAnnotations when a label is unset, whatever \<open>check\<close> is; on a fully labelled
  dataset it raises AtLeastTwoClasses when \<open>check\<close> holds and fewer than two distinct
  values are present; on a fully labelled dataset of two classes or more it returns a new
  array: when \<open>multiclass\<close> is false the integer codes \<open>v\<close> of the labels, and when it is
  true their strings, that is \<^verbatim>\<open>True\<close> or \<^verbatim>\<open>False\<close> for a boolean, the decimal digits
  for an integer, and for a string the string itself up to its trailing NUL characters,
  which a string array does not keep.
\<close>

theorem supervised_get_supervision_rule:
  assumes "derives_singly (conf_class self) SupervisedClassifierConf_cls"
    and "labels = to_objs (cells h (inst gt (multiclass self)))"
  shows "(PyNone \<in> set labels \<longrightarrow>
            get_supervision f self inst gt check h = (Inl MissingAnnotations, h))
       \<and> (PyNone \<notin> set labels \<and> check \<and> card (py_key ` set labels) < 2 \<longrightarrow>
            get_supervision f self inst gt check h = (Inl AtLeastTwoClasses, h))
       \<and> (PyNone \<notin> set labels \<and> 2 \<le> card (py_key ` set labels) \<and> \<not> multiclass self
            \<and> list_all2 (\<lambda>x i. py_int f x = Inr i) labels v \<longrightarrow>
            (\<exists>r h'. get_supervision f self inst gt check h = (Inr (Some r), h')
                   \<and> cells h' r = IntArr v))
       \<and> (PyNone \<notin> set labels \<and> 2 \<le> card (py_key ` set labels) \<and> multiclass self \<longrightarrow>
            (\<exists>r h' w. get_supervision f self inst gt check h = (Inr (Some r), h')
                   \<and> cells h' r = StrArr w
                   \<and> length w = length labels
                   \<and> (\<forall>i < length labels.
                         (labels ! i = PyBool True \<longrightarrow> w ! i = ''True'')
                       \<and> (labels ! i = PyBool False \<longrightarrow> w ! i = ''False'')
                       \<and> (\<forall>n. labels ! i = PyInt n \<longrightarrow> w ! i = str_of_int n)
                       \<and> (\<forall>s. labels ! i = PyStr s \<longrightarrow>
                             (\<exists>k. s = w ! i @ replicate k (CHR 0x00))
                           \<and> (w ! i = [] \<or> last (w ! i) \<noteq> CHR 0x00)))))"
proof -
  let ?a = "cells h (inst gt (multiclass self))"
  have missing: "get_supervision f self inst gt check h = (Inl MissingAnnotations, h)"
    if "PyNone \<in> set labels"
    using that assms(2)
    by (simp add: get_supervision_sup [OF assms(1)] some_ref_def np_all_ne_None
        SupervisedClassifierConf_get_supervision_def ClassifierConf_get_supervision_def)
  have classes: "get_supervision f self inst gt check h = (Inl AtLeastTwoClasses, h)"
    if "PyNone \<notin> set labels" "check" "card (py_key ` set labels) < 2"
    using that assms(2)
    by (simp add: get_supervision_sup [OF assms(1)] some_ref_def np_all_ne_None length_py_set
        SupervisedClassifierConf_get_supervision_def ClassifierConf_get_supervision_def)
  have ints: "\<exists>r h'. get_supervision f self inst gt check h = (Inr (Some r), h')
                   \<and> cells h' r = IntArr v"
    if "PyNone \<notin> set labels" "2 \<le> card (py_key ` set labels)" "\<not> multiclass self"
      "list_all2 (\<lambda>x i. py_int f x = Inr i) labels v"
  proof -
    have "astype_int f ?a = Inr (IntArr v)"
      using that(4) assms(2) by (simp add: astype_int_def ints_of_Inr_iff [symmetric])
    with that assms(2) show ?thesis
      by (simp add: get_supervision_sup [OF assms(1)] some_ref_def np_all_ne_None
          length_py_set alloc_def
          SupervisedClassifierConf_get_supervision_def ClassifierConf_get_supervision_def)
  qed
  have strs: "\<exists>r h' w. get_supervision f self inst gt check h = (Inr (Some r), h')
                   \<and> cells h' r = StrArr w
                   \<and> length w = length labels
                   \<and> (\<forall>i < length labels.
                         (labels ! i = PyBool True \<longrightarrow> w ! i = ''True'')
                       \<and> (labels ! i = PyBool False \<longrightarrow> w ! i = ''False'')
                       \<and> (\<forall>n. labels ! i = PyInt n \<longrightarrow> w ! i = str_of_int n)
                       \<and> (\<forall>s. labels ! i = PyStr s \<longrightarrow>
                             (\<exists>k. s = w ! i @ replicate k (CHR 0x00))
                           \<and> (w ! i = [] \<or> last (w ! i) \<noteq> CHR 0x00)))"
    if "PyNone \<notin> set labels" "2 \<le> card (py_key ` set labels)" "multiclass self"
  proof -
    let ?w = "map (\<lambda>x. strip_nul (py_str x)) labels"
    have "\<exists>r h'. get_supervision f self inst gt check h = (Inr (Some r), h')
                   \<and> cells h' r = StrArr ?w"
      using that assms(2)
      by (simp add: get_supervision_sup [OF assms(1)] some_ref_def np_all_ne_None
          length_py_set alloc_def astype_str_def
          SupervisedClassifierConf_get_supervision_def ClassifierConf_get_supervision_def)
    moreover have "length ?w = length labels" by simp
    moreover have "\<forall>i < length labels.
                         (labels ! i = PyBool True \<longrightarrow> ?w ! i = ''True'')
                       \<and> (labels ! i = PyBool False \<longrightarrow> ?w ! i = ''False'')
                       \<and> (\<forall>n. labels ! i = PyInt n \<longrightarrow> ?w ! i = str_of_int n)
                       \<and> (\<forall>s. labels ! i = PyStr s \<longrightarrow>
                             (\<exists>k. s = ?w ! i @ replicate k (CHR 0x00))
                           \<and> (?w ! i = [] \<or> last (?w ! i) \<noteq> CHR 0x00))"
      using strip_nul_padding strip_nul_end by (auto simp: strip_nul_py_str)
    ultimately show ?thesis by blast
  qed
  from missing classes ints strs show ?thesis by blast
qed

lemma instantiate_unsup:
  assumes "derives_singly cls UnsupervisedClassifierConf_cls"
  shows "instantiate cls (Args2 hyper logger) = UnsupervisedClassifierConf_init cls hyper logger"
    and "instantiate cls (Args3 mc hyper logger) = Inl TypeError"
  using lookup_attr_inherited [OF assms, of "''__init__''"]
  by (simp_all add: instantiate_def lookup_attr_paradigms)

lemma instantiate_sup:
  assumes "derives_singly cls SupervisedClassifierConf_cls"
  shows "instantiate cls (Args3 mc hyper logger) = ClassifierConf_init cls mc hyper logger"
  using lookup_attr_inherited [OF assms, of "''__init__''"]
  by (simp add: instantiate_def lookup_attr_paradigms SupervisedClassifierConf_init_def)

lemma instantiate_semi:
  assumes "derives_singly cls SemiSupervisedClassifierConf_cls"
  shows "instantiate cls (Args3 mc hyper logger) = ClassifierConf_init cls mc hyper logger"
  using lookup_attr_inherited [OF assms, of "''__init__''"]
  by (simp add: instantiate_def lookup_attr_paradigms SemiSupervisedClassifierConf_init_def)

text \<open>
  Claim C8. A class that has the constructor of \<^verbatim>\<open>UnsupervisedClassifierConf\<close>
  only produces configurations whose \<open>multiclass\<close> is false, and does not take a
  multiclass argument: the call with three arguments raises TypeError.
\<close>

theorem unsupervised_never_multiclass:
  assumes "derives_singly cls UnsupervisedClassifierConf_cls"
  shows "(instantiate cls args = Inr c \<longrightarrow> multiclass c = False)
       \<and> instantiate cls (Args3 mc hyper logger) = Inl TypeError"
proof -
  have "multiclass c = False" if i: "instantiate cls args = Inr c"
  proof (cases args)
    case (Args2 hyper' logger')
    with i instantiate_unsup(1) [OF assms, of hyper' logger']
    show ?thesis
      by (auto simp: UnsupervisedClassifierConf_init_def ClassifierConf_init_def
          split: option.splits)
  next
    case (Args3 mc' hyper' logger')
    with i instantiate_unsup(2) [OF assms, of mc' hyper' logger']
    show ?thesis by simp
  qed
  moreover have "instantiate cls (Args3 mc hyper logger) = Inl TypeError"
    by (rule instantiate_unsup(2) [OF assms])
  ultimately show ?thesis by simp
qed

text \<open>
  Claim C9. \<^verbatim>\<open>get_default\<close> calls the class with three arguments. For a class with
  the unsupervised constructor the call raises TypeError; for a class with the supervised
  or the semi-supervised one it builds the configuration when the class is a concrete
  leaf; so among the classes of the three paradigms it succeeds exactly for the
  supervised and semi-supervised leaves.
\<close>

theorem get_default_arity:
  assumes "get_class model_class = Inr cls"
    and "hyper_get_default num_folds n_jobs mc cls logger = Inr hyper"
    and "r = get_default get_class hyper_get_default model_class num_folds n_jobs mc logger"
  shows "(derives_singly cls UnsupervisedClassifierConf_cls \<longrightarrow> r = Inl TypeError)
       \<and> (derives_singly cls SupervisedClassifierConf_cls
            \<or> derives_singly cls SemiSupervisedClassifierConf_cls \<longrightarrow>
            r = (case lookup_ops cls of
                   None \<Rightarrow> Inl AttributeError
                 | Some ops \<Rightarrow>
                     Inr \<lparr>conf_class = cls, multiclass = mc, hyperparam_conf = hyper,
                          accept_sparse = False, probabilist = is_probabilist ops,
                          feature_importance = get_feature_importance ops,
                          model_class_name = get_model_class_name ops\<rparr>))
       \<and> (derives_singly cls UnsupervisedClassifierConf_cls
            \<or> derives_singly cls SupervisedClassifierConf_cls
            \<or> derives_singly cls SemiSupervisedClassifierConf_cls \<longrightarrow>
            ((\<exists>c. r = Inr c) \<longleftrightarrow>
               (derives_singly cls SupervisedClassifierConf_cls
                \<or> derives_singly cls SemiSupervisedClassifierConf_cls)
               \<and> lookup_ops cls \<noteq> None))"
proof -
  have u: "r = Inl TypeError" if "derives_singly cls UnsupervisedClassifierConf_cls"
    using assms instantiate_unsup(2) [OF that, of mc hyper logger]
    by (simp add: get_default_def)
  have s: "r = ClassifierConf_init cls mc hyper logger"
    if "derives_singly cls SupervisedClassifierConf_cls
        \<or> derives_singly cls SemiSupervisedClassifierConf_cls"
    using that assms instantiate_sup [of cls mc hyper logger]
      instantiate_semi [of cls mc hyper logger]
    by (auto simp: get_default_def)
  have x: "\<not> (derives_singly cls SupervisedClassifierConf_cls
               \<or> derives_singly cls SemiSupervisedClassifierConf_cls)"
    if d: "derives_singly cls UnsupervisedClassifierConf_cls"
  proof
    assume "derives_singly cls SupervisedClassifierConf_cls
            \<or> derives_singly cls SemiSupervisedClassifierConf_cls"
    from s [OF this] u [OF d]
    have "ClassifierConf_init cls mc hyper logger = Inl TypeError" by simp
    then show False
      by (simp add: ClassifierConf_init_def split: option.splits)
  qed
  show ?thesis
  proof (intro conjI impI)
    assume "derives_singly cls UnsupervisedClassifierConf_cls"
    then show "r = Inl TypeError" by (rule u)
  next
    assume "derives_singly cls SupervisedClassifierConf_cls
            \<or> derives_singly cls SemiSupervisedClassifierConf_cls"
    from s [OF this] show "r = (case lookup_ops cls of
                   None \<Rightarrow> Inl AttributeError
                 | Some ops \<Rightarrow>
                     Inr \<lparr>conf_class = cls, multiclass = mc, hyperparam_conf = hyper,
                          accept_sparse = False, probabilist = is_probabilist ops,
                          feature_importance = get_feature_importance ops,
                          model_class_name = get_model_class_name ops\<rparr>)"
      by (simp add: ClassifierConf_init_def)
  next
    assume a: "derives_singly cls UnsupervisedClassifierConf_cls
            \<or> derives_singly cls SupervisedClassifierConf_cls
            \<or> derives_singly cls SemiSupervisedClassifierConf_cls"
    show "(\<exists>c. r = Inr c) \<longleftrightarrow>
               (derives_singly cls SupervisedClassifierConf_cls
                \<or> derives_singly cls SemiSupervisedClassifierConf_cls)
               \<and> lookup_ops cls \<noteq> None"
    proof (cases "derives_singly cls UnsupervisedClassifierConf_cls")
      case True
      with u x show ?thesis by auto
    next
      case False
      with a have "derives_singly cls SupervisedClassifierConf_cls
            \<or> derives_singly cls SemiSupervisedClassifierConf_cls" by blast
      with s show ?thesis
        by (auto simp: ClassifierConf_init_def split: option.splits)
    qed
  qed
qed

section \<open>The claims on the example objects\<close>


lemmas ex_cls_defs = ex_unsupervised_leaf_def ex_semisupervised_leaf_def ex_supervised_leaf_def
  ex_mixed_leaf_def ex_ops_def

theorem get_classifier_type_order_witness:
  "get_classifier_type ex_mixed_leaf = Inr (Some unsupervised)
   \<and> get_classifier_type ex_semisupervised_leaf = Inr (Some semisupervised)
   \<and> get_classifier_type ex_supervised_leaf = Inr (Some supervised)
   \<and> get_classifier_type ClassifierConf_cls = Inr None
   \<and> get_classifier_type Conf_cls = Inl (ValueError ''Conf is not a classifier configuration.'')"
proof -
  have a: "issubclass ex_mixed_leaf UnsupervisedClassifierConf_cls"
    and a': "issubclass ex_mixed_leaf SupervisedClassifierConf_cls"
    by (simp_all add: ex_cls_defs cls_defs)
  have b: "\<not> issubclass ex_semisupervised_leaf UnsupervisedClassifierConf_cls
           \<and> issubclass ex_semisupervised_leaf SemiSupervisedClassifierConf_cls"
    by (simp add: ex_cls_defs cls_defs)
  have c: "\<not> issubclass ex_supervised_leaf UnsupervisedClassifierConf_cls
           \<and> \<not> issubclass ex_supervised_leaf SemiSupervisedClassifierConf_cls
           \<and> issubclass ex_supervised_leaf SupervisedClassifierConf_cls"
    by (simp add: ex_cls_defs cls_defs)
  have d: "\<not> issubclass ClassifierConf_cls UnsupervisedClassifierConf_cls
           \<and> \<not> issubclass ClassifierConf_cls SemiSupervisedClassifierConf_cls
           \<and> \<not> issubclass ClassifierConf_cls SupervisedClassifierConf_cls
           \<and> issubclass ClassifierConf_cls ClassifierConf_cls"
    by (simp add: cls_defs)
  have e: "\<not> issubclass Conf_cls ClassifierConf_cls"
    by (simp add: cls_defs)
  have n: "cname Conf_cls = ''Conf''"
    by (simp add: cls_defs)
  show ?thesis
    using a b c d e n get_classifier_type_order [of ex_mixed_leaf]
      get_classifier_type_order [of ex_semisupervised_leaf]
      get_classifier_type_order [of ex_supervised_leaf]
      get_classifier_type_order [of ClassifierConf_cls]
      get_classifier_type_order [of Conf_cls]
    by simp
qed

lemma ex_leaves_derive:
  "derives_singly ex_unsupervised_leaf UnsupervisedClassifierConf_cls"
  "derives_singly ex_semisupervised_leaf SemiSupervisedClassifierConf_cls"
  "derives_singly ex_supervised_leaf SupervisedClassifierConf_cls"
  by (simp_all add: ex_cls_defs cls_defs)

lemma ex_paradigm_leaves:
  "paradigm_leaf ex_unsupervised_leaf" "paradigm_leaf ex_semisupervised_leaf"
  "paradigm_leaf ex_supervised_leaf" "paradigm_leaf ex_mixed_leaf"
  by (simp_all add: paradigm_leaf_def ex_cls_defs cls_defs)

theorem get_methods_partition_witness:
  "get_methods ex_all_classifiers ex_get_class None = Inr ex_all_classifiers
   \<and> get_methods ex_all_classifiers ex_get_class (Some unsupervised)
       = Inr [''ExUnsupervised'', ''ExMixed'']
   \<and> get_methods ex_all_classifiers ex_get_class (Some semisupervised)
       = Inr [''ExSemiSupervised'']
   \<and> get_methods ex_all_classifiers ex_get_class (Some supervised) = Inr [''ExSupervised'']"
proof -
  have h: "\<forall>m \<in> set ex_all_classifiers. \<exists>cls. ex_get_class m = Inr cls \<and> paradigm_leaf cls"
    by (simp add: ex_all_classifiers_def ex_get_class_def ex_paradigm_leaves)
  have t: "resolved_type ex_get_class ''ExUnsupervised'' = Some unsupervised"
    "resolved_type ex_get_class ''ExSupervised'' = Some supervised"
    "resolved_type ex_get_class ''ExSemiSupervised'' = Some semisupervised"
    "resolved_type ex_get_class ''ExMixed'' = Some unsupervised"
    by (simp_all add: resolved_type_def ex_get_class_def get_classifier_type_def
        ex_cls_defs cls_defs)
  show ?thesis
    using get_methods_partition [OF h] t by (simp add: ex_all_classifiers_def)
qed


lemmas ex_data_defs = ex_store_def ex_cells_def ex_instances_def ex_one_class_def
  ex_int_of_str_def ex_conf_def

lemmas eval_defs = get_supervision_def call_method_def some_ref_def
  SupervisedClassifierConf_get_supervision_def SemiSupervisedClassifierConf_get_supervision_def
  UnsupervisedClassifierConf_supervision_def ClassifierConf_get_supervision_def
  deepcopy_def alloc_def setitem_def astype_int_def astype_str_def eq_None_def ne_None_def
  np_all_def py_set_def in_int64_def Let_def

lemma ex_lookup:
  "lookup_attr ex_unsupervised_leaf ''__init__'' = Some Fn_UnsupervisedClassifierConf_init"
  "lookup_attr ex_unsupervised_leaf ''get_supervision'' = Some Fn_ClassifierConf_get_supervision"
  "lookup_attr ex_unsupervised_leaf ''supervision'' = Some Fn_UnsupervisedClassifierConf_supervision"
  "lookup_attr ex_supervised_leaf ''__init__'' = Some Fn_SupervisedClassifierConf_init"
  "lookup_attr ex_supervised_leaf ''get_supervision'' = Some Fn_SupervisedClassifierConf_get_supervision"
  "lookup_attr ex_semisupervised_leaf ''__init__'' = Some Fn_SemiSupervisedClassifierConf_init"
  "lookup_attr ex_semisupervised_leaf ''get_supervision'' = Some Fn_SemiSupervisedClassifierConf_get_supervision"
  by (simp_all only: lookup_attr_inherited [OF ex_leaves_derive(1)]
      lookup_attr_inherited [OF ex_leaves_derive(2)]
      lookup_attr_inherited [OF ex_leaves_derive(3)] lookup_attr_paradigms simp_thms)

lemma ex_lookup_ops:
  "lookup_ops ex_unsupervised_leaf = Some ex_ops"
  "lookup_ops ex_supervised_leaf = Some ex_ops"
  "lookup_ops ex_semisupervised_leaf = Some ex_ops"
proof -
  have "cleaf ex_unsupervised_leaf = Some ex_ops" "cleaf ex_supervised_leaf = Some ex_ops"
    "cleaf ex_semisupervised_leaf = Some ex_ops"
    by (simp_all add: ex_unsupervised_leaf_def ex_supervised_leaf_def
        ex_semisupervised_leaf_def)
  then show "lookup_ops ex_unsupervised_leaf = Some ex_ops"
    "lookup_ops ex_supervised_leaf = Some ex_ops"
    "lookup_ops ex_semisupervised_leaf = Some ex_ops"
    using lookup_ops_leaf ex_leaves_derive by blast+
qed

text \<open>
  Claim C1. On an unsupervised configuration, \<^verbatim>\<open>get_supervision\<close> with
  \<^verbatim>\<open>ground_truth=False\<close> should give \<^verbatim>\<open>None\<close>, and with \<^verbatim>\<open>ground_truth=True\<close>
  an integer array. \<^verbatim>\<open>UnsupervisedClassifierConf\<close> defines that rule under the name
  \<^verbatim>\<open>supervision\<close>, so the call \<^verbatim>\<open>get_supervision\<close> finds the method of
  \<^verbatim>\<open>ClassifierConf\<close>: on the example leaf it returns the array of the annotations
  itself (reference 0, with its unset label, then reference 1, an object array), where the
  method \<^verbatim>\<open>supervision\<close> returns \<^verbatim>\<open>None\<close> and a new integer array.
\<close>

theorem unsupervised_get_supervision_runs_base:
  "get_supervision ex_int_of_str (ex_conf ex_unsupervised_leaf False) ex_instances False True
      ex_store = (Inr (Some 0), ex_store)
   \<and> cells ex_store 0 = ObjArr [PyBool True, PyNone, PyBool False]
   \<and> call_method ex_int_of_str (ex_conf ex_unsupervised_leaf False) ''supervision''
        ex_instances False True ex_store = (Inr None, ex_store)
   \<and> get_supervision ex_int_of_str (ex_conf ex_unsupervised_leaf False) ex_instances True True
        ex_store = (Inr (Some 1), ex_store)
   \<and> cells ex_store 1 = ObjArr [PyBool True, PyBool True, PyBool False]
   \<and> fst (call_method ex_int_of_str (ex_conf ex_unsupervised_leaf False) ''supervision''
        ex_instances True True ex_store) = Inr (Some 5)
   \<and> cells (snd (call_method ex_int_of_str (ex_conf ex_unsupervised_leaf False) ''supervision''
        ex_instances True True ex_store)) 5 = IntArr [1, 1, 0]"
  by (simp add: eval_defs ex_data_defs ex_lookup)

text \<open>
  Claim C3 as stated, that the call fails on an unset label before the sentinel is
  written, is false: on the partly annotated labels of the example the call returns the
  array with \<open>-1\<close> at the unset position.
\<close>

theorem semisupervised_missing_check_counterexample:
  "PyNone \<in> set (to_objs (cells ex_store (ex_instances False False)))
   \<and> get_supervision ex_int_of_str (ex_conf ex_semisupervised_leaf False) ex_instances False
        True ex_store \<noteq> (Inl MissingAnnotations, ex_store)
   \<and> fst (get_supervision ex_int_of_str (ex_conf ex_semisupervised_leaf False) ex_instances
        False True ex_store) = Inr (Some 6)
   \<and> cells (snd (get_supervision ex_int_of_str (ex_conf ex_semisupervised_leaf False)
        ex_instances False True ex_store)) 6 = IntArr [1, - 1, 0]"
  by (simp add: eval_defs ex_data_defs ex_lookup)



lemma ex_conf_class [simp]: "conf_class (ex_conf cls mc) = cls" "multiclass (ex_conf cls mc) = mc"
  by (simp_all add: ex_conf_def)

theorem supervised_get_supervision_rule_witness:
  "get_supervision ex_int_of_str (ex_conf ex_supervised_leaf False) ex_instances False False
      ex_store = (Inl MissingAnnotations, ex_store)
   \<and> get_supervision ex_int_of_str (ex_conf ex_supervised_leaf False) ex_one_class True True
      ex_store = (Inl AtLeastTwoClasses, ex_store)
   \<and> (\<exists>r h'. get_supervision ex_int_of_str (ex_conf ex_supervised_leaf False) ex_instances
                True True ex_store = (Inr (Some r), h')
            \<and> cells h' r = IntArr [1, 1, 0])
   \<and> (\<exists>r h' w. get_supervision ex_int_of_str (ex_conf ex_supervised_leaf True) ex_names
                True True ex_names_store = (Inr (Some r), h')
            \<and> cells h' r = StrArr w \<and> length w = 3
            \<and> w ! 0 = ''a'' \<and> w ! 1 = ''True'' \<and> w ! 2 = ''-12'')"
proof -
  let ?c = "ex_conf ex_supervised_leaf False"
  let ?l0 = "[PyBool True, PyNone, PyBool False]"
  let ?l1 = "[PyBool True, PyBool True, PyBool False]"
  let ?l4 = "[PyBool True, PyInt 1]"
  have d: "derives_singly (conf_class ?c) SupervisedClassifierConf_cls"
    by (simp add: ex_leaves_derive)
  have l0: "?l0 = to_objs (cells ex_store (ex_instances False (multiclass ?c)))"
    and l1: "?l1 = to_objs (cells ex_store (ex_instances True (multiclass ?c)))"
    and l4: "?l4 = to_objs (cells ex_store (ex_one_class True (multiclass ?c)))"
    by (simp_all add: ex_data_defs)
  have h0: "PyNone \<in> set ?l0" by simp
  have h4: "PyNone \<notin> set ?l4 \<and> True \<and> card (py_key ` set ?l4) < 2" by simp
  have h1: "PyNone \<notin> set ?l1 \<and> 2 \<le> card (py_key ` set ?l1) \<and> \<not> multiclass ?c
          \<and> list_all2 (\<lambda>x i. py_int ex_int_of_str x = Inr i) ?l1 [1, 1, 0]"
    by simp
  have a: "get_supervision ex_int_of_str ?c ex_instances False False ex_store
             = (Inl MissingAnnotations, ex_store)"
    using h0 supervised_get_supervision_rule [where self = ?c and inst = ex_instances
        and gt = False and h = ex_store and f = ex_int_of_str and check = False
        and labels = ?l0, OF d l0, THEN conjunct1]
    by (rule rev_mp)
  have b: "get_supervision ex_int_of_str ?c ex_one_class True True ex_store
             = (Inl AtLeastTwoClasses, ex_store)"
    using h4 supervised_get_supervision_rule [where self = ?c and inst = ex_one_class
        and gt = True and h = ex_store and f = ex_int_of_str and check = True
        and labels = ?l4, OF d l4, THEN conjunct2, THEN conjunct1]
    by (rule rev_mp)
  have c: "\<exists>r h'. get_supervision ex_int_of_str ?c ex_instances True True ex_store
                    = (Inr (Some r), h') \<and> cells h' r = IntArr [1, 1, 0]"
    using h1 supervised_get_supervision_rule [where self = ?c and inst = ex_instances
        and gt = True and h = ex_store and f = ex_int_of_str and check = True
        and v = "[1, 1, 0]" and labels = ?l1, OF d l1, THEN conjunct2, THEN conjunct2,
        THEN conjunct1]
    by (rule rev_mp)
  let ?m = "ex_conf ex_supervised_leaf True"
  let ?names = "[PyStr [CHR ''a'', CHR 0x00], PyBool True, PyInt (- 12)]"
  have dm: "derives_singly (conf_class ?m) SupervisedClassifierConf_cls"
    by (simp add: ex_leaves_derive)
  have l3: "?names = to_objs (cells ex_names_store (ex_names True (multiclass ?m)))"
    by (simp add: ex_names_store_def ex_names_def)
  have k3: "2 \<le> card (py_key ` set ?names)"
    by simp
  have p3: "PyNone \<notin> set ?names" by simp
  have m: "multiclass ?m" by simp
  note t = supervised_get_supervision_rule [where self = ?m and inst = ex_names
        and gt = True and h = ex_names_store and f = ex_int_of_str and check = True
        and labels = ?names, OF dm l3, THEN conjunct2, THEN conjunct2, THEN conjunct2,
        rule_format, OF conjI [OF p3 conjI [OF k3 m]]]
  from t obtain r h' w where
    g: "get_supervision ex_int_of_str ?m ex_names True True ex_names_store = (Inr (Some r), h')"
    and w: "cells h' r = StrArr w" and n: "length w = length ?names"
    and e: "\<forall>i < length ?names. (?names ! i = PyBool True \<longrightarrow> w ! i = ''True'')
              \<and> (?names ! i = PyBool False \<longrightarrow> w ! i = ''False'')
              \<and> (\<forall>n. ?names ! i = PyInt n \<longrightarrow> w ! i = str_of_int n)
              \<and> (\<forall>s. ?names ! i = PyStr s \<longrightarrow>
                    (\<exists>k. s = w ! i @ replicate k (CHR 0x00))
                  \<and> (w ! i = [] \<or> last (w ! i) \<noteq> CHR 0x00))"
    by blast
  have i1: "(1::nat) < length ?names" and i2: "(2::nat) < length ?names"
    and i0: "(0::nat) < length ?names" by simp_all
  from e [rule_format, OF i1] have w1: "w ! 1 = ''True''" by simp
  from e [rule_format, OF i2] have "w ! 2 = str_of_int (- 12)" by simp
  also have "str_of_int (- 12) = ''-12''"
    by (simp add: str_of_int_def str_of_nat.simps digit_char_def)
  finally have w2: "w ! 2 = ''-12''" .
  from e [rule_format, OF i0] have
    "(\<exists>k. [CHR ''a'', CHR 0x00] = w ! 0 @ replicate k (CHR 0x00))
       \<and> (w ! 0 = [] \<or> last (w ! 0) \<noteq> CHR 0x00)"
    by simp
  then obtain k where
    p: "[CHR ''a'', CHR 0x00] = w ! 0 @ replicate k (CHR 0x00)"
    and q: "w ! 0 = [] \<or> last (w ! 0) \<noteq> CHR 0x00"
    by blast
  have w0: "w ! 0 = ''a''"
  proof (cases "w ! 0")
    case Nil
    with p have "[CHR ''a'', CHR 0x00] = replicate k (CHR 0x00)" by simp
    then have "CHR ''a'' \<in> set (replicate k (CHR 0x00))" by (metis list.set_intros(1))
    then show ?thesis by simp
  next
    case (Cons x xs)
    note c1 = this
    show ?thesis
    proof (cases xs)
      case Nil
      with c1 p show ?thesis by simp
    next
      case (Cons y ys)
      with c1 have f: "w ! 0 = x # y # ys" by simp
      from p have "[CHR ''a'', CHR 0x00] = x # y # (ys @ replicate k (CHR 0x00))"
        by (simp only: f append_Cons)
      then have "x = CHR ''a''" "y = CHR 0x00" "ys = []" by simp_all
      with f have "w ! 0 = [CHR ''a'', CHR 0x00]" by simp
      with q show ?thesis by simp
    qed
  qed
  from n have "length w = 3" by simp
  with a b c g w w0 w1 w2 show ?thesis by blast
qed

theorem semisupervised_no_annotation_check_witness:
  "fst (get_supervision ex_int_of_str (ex_conf ex_semisupervised_leaf False) ex_instances False
      True ex_store) \<noteq> Inl MissingAnnotations
   \<and> fst (get_supervision ex_int_of_str (ex_conf ex_semisupervised_leaf False) ex_one_class
      True True ex_store) \<noteq> Inl AtLeastTwoClasses
   \<and> to_objs (cells (snd (get_supervision ex_int_of_str (ex_conf ex_semisupervised_leaf False)
        ex_instances False True ex_store)) 5) = [PyBool True, PyInt (- 1), PyBool False]
   \<and> (\<exists>r h' v. get_supervision ex_int_of_str (ex_conf ex_semisupervised_leaf False)
          ex_instances False True ex_store = (Inr (Some r), h')
        \<and> cells h' r = IntArr v \<and> length v = 3 \<and> v ! 1 = - 1)"
proof -
  let ?c = "ex_conf ex_semisupervised_leaf False"
  let ?labels = "[PyBool True, PyNone, PyBool False]"
  have d: "derives_singly (conf_class ?c) SemiSupervisedClassifierConf_cls"
    by (simp add: ex_leaves_derive)
  have l: "?labels = to_objs (cells ex_store (ex_instances False (multiclass ?c)))"
    and l4: "[PyBool True, PyInt 1] = to_objs (cells ex_store (ex_one_class True (multiclass ?c)))"
    by (simp_all add: ex_data_defs)
  have n: "next_ref ex_store = 5" by (simp add: ex_store_def)
  have c: "\<forall>x \<in> set ?labels. x \<noteq> PyNone \<longrightarrow> (\<exists>i. py_int ex_int_of_str x = Inr i)"
    by simp
  note t = semisupervised_no_annotation_check [where self = ?c and inst = ex_instances
      and gt = False and h = ex_store and f = ex_int_of_str and check = True
      and labels = ?labels, OF d l]
  note u = semisupervised_no_annotation_check [where self = ?c and inst = ex_one_class
      and gt = True and h = ex_store and f = ex_int_of_str and check = True
      and labels = "[PyBool True, PyInt 1]", OF d l4]
  from t have t1: "fst (get_supervision ex_int_of_str ?c ex_instances False True ex_store)
                     \<noteq> Inl MissingAnnotations"
    by (rule conjunct1)
  from u have u2: "fst (get_supervision ex_int_of_str ?c ex_one_class True True ex_store)
                     \<noteq> Inl AtLeastTwoClasses"
    by blast
  from t have "to_objs (cells (snd (get_supervision ex_int_of_str ?c ex_instances False True
                   ex_store)) (next_ref ex_store))
                 = map (\<lambda>x. if x = PyNone then PyInt (- 1) else x) ?labels"
    by blast
  then have t4: "to_objs (cells (snd (get_supervision ex_int_of_str ?c ex_instances False True
                   ex_store)) 5) = [PyBool True, PyInt (- 1), PyBool False]"
    by (simp add: n)
  from t c have "\<exists>r h' v. get_supervision ex_int_of_str ?c ex_instances False True ex_store
                    = (Inr (Some r), h')
                \<and> cells h' r = IntArr v \<and> length v = length ?labels
                \<and> (\<forall>i < length ?labels. ?labels ! i = PyNone \<longrightarrow> v ! i = - 1)"
    by blast
  then obtain r h' v where
    g: "get_supervision ex_int_of_str ?c ex_instances False True ex_store = (Inr (Some r), h')"
    and a: "cells h' r = IntArr v" and len: "length v = 3"
    and e: "\<forall>i < 3. ?labels ! i = PyNone \<longrightarrow> v ! i = - 1"
    by auto
  from e [rule_format, of 1] have "v ! 1 = - 1" by simp
  with g a len have t5: "\<exists>r h' v. get_supervision ex_int_of_str ?c ex_instances False True
          ex_store = (Inr (Some r), h')
        \<and> cells h' r = IntArr v \<and> length v = 3 \<and> v ! 1 = - 1"
    by blast
  from t1 u2 t4 t5 show ?thesis by blast
qed


theorem unsupervised_never_multiclass_witness:
  "instantiate ex_unsupervised_leaf (Args2 () ()) = Inr (ex_conf ex_unsupervised_leaf False)
   \<and> multiclass (ex_conf ex_unsupervised_leaf False) = False"
proof -
  have i: "instantiate ex_unsupervised_leaf (Args2 () ()) = Inr (ex_conf ex_unsupervised_leaf False)"
    by (simp add: instantiate_def ex_lookup ex_lookup_ops UnsupervisedClassifierConf_init_def
        ClassifierConf_init_def ex_conf_def ex_ops_def)
  show ?thesis
    using i unsupervised_never_multiclass [OF ex_leaves_derive(1),
        where args = "Args2 () ()" and c = "ex_conf ex_unsupervised_leaf False"]
    by simp
qed

theorem get_default_arity_witness:
  "get_default ex_get_class ex_hyper_get_default ''ExUnsupervised'' 4 1 False () = Inl TypeError
   \<and> get_default ex_get_class ex_hyper_get_default ''ExSupervised'' 4 1 True ()
       = Inr (ex_conf ex_supervised_leaf True)
   \<and> get_default ex_get_class ex_hyper_get_default ''ExSemiSupervised'' 4 1 False ()
       = Inr (ex_conf ex_semisupervised_leaf False)"
proof -
  have g: "ex_get_class ''ExUnsupervised'' = Inr ex_unsupervised_leaf"
    "ex_get_class ''ExSupervised'' = Inr ex_supervised_leaf"
    "ex_get_class ''ExSemiSupervised'' = Inr ex_semisupervised_leaf"
    by (simp_all add: ex_get_class_def)
  have h: "ex_hyper_get_default 4 1 mc cls () = Inr ()" for mc cls
    by (simp add: ex_hyper_get_default_def)
  note o = ex_lookup_ops(2,3)
  show ?thesis
    using get_default_arity [where get_class = ex_get_class
        and hyper_get_default = ex_hyper_get_default and model_class = "''ExUnsupervised''"
        and num_folds = 4 and n_jobs = 1 and mc = False and logger = "()", OF g(1) h refl]
      get_default_arity [where get_class = ex_get_class
        and hyper_get_default = ex_hyper_get_default and model_class = "''ExSupervised''"
        and num_folds = 4 and n_jobs = 1 and mc = True and logger = "()", OF g(2) h refl]
      get_default_arity [where get_class = ex_get_class
        and hyper_get_default = ex_hyper_get_default and model_class = "''ExSemiSupervised''"
        and num_folds = 4 and n_jobs = 1 and mc = False and logger = "()", OF g(3) h refl]
      ex_leaves_derive o
    by (simp add: ex_conf_def ex_ops_def)
qed

theorem semisupervised_keeps_annotations_witness:
  "cells (snd (get_supervision ex_int_of_str (ex_conf ex_semisupervised_leaf False) ex_instances
      False True ex_store)) (ex_instances False False)
     = ObjArr [PyBool True, PyNone, PyBool False]"
proof -
  have d: "derives_singly (conf_class (ex_conf ex_semisupervised_leaf False))
             SemiSupervisedClassifierConf_cls"
    by (simp add: ex_leaves_derive)
  have l: "\<forall>g m. ex_instances g m < next_ref ex_store"
    by (simp add: ex_store_def ex_instances_def)
  show ?thesis
    using semisupervised_keeps_annotations [OF d l, where f = ex_int_of_str and gt = False
        and check = True, rule_format, of False False]
    by (simp add: ex_store_def ex_cells_def ex_instances_def)
qed

end
